theory Spec2Isabelle
  imports Complex_Main
begin

section \<open>Exceptions and console output\<close>

text \<open>
  The Python exceptions that the render pipeline of \<^verbatim>\<open>Render.py\<close> can meet. A function
  that may raise returns a sum: \<open>Inl e\<close> is the exception \<open>e\<close> leaving the function,
  \<open>Inr x\<close> is the value returned. \<open>OtherError\<close> stands for any exception class not
  listed (a backend function is free to raise anything).
\<close>

datatype exn =
    AttributeError
  | TypeError
  | AssertionError
  | KeyError
  | ValueError
  | IndexError
  | ModuleNotFoundError
  | ReError
  | OtherError string

text \<open>What \<^verbatim>\<open>App.Console\<close> prints: a warning naming the view that was skipped, or an error.\<close>

datatype msg =
    PrintWarning string exn
  | PrintError string

section \<open>Strings: membership, lines, and the substitution of marker lines\<close>

definition newline :: char where
  "newline = CHR 0x0A"

definition backslash :: char where
  "backslash = CHR 0x5C"

fun starts_with :: "string \<Rightarrow> string \<Rightarrow> bool" where
  "starts_with [] s = True"
| "starts_with (m # ms) [] = False"
| "starts_with (m # ms) (c # cs) = (m = c \<and> starts_with ms cs)"

text \<open>Python's \<^verbatim>\<open>m in s\<close> on strings.\<close>

fun contains :: "string \<Rightarrow> string \<Rightarrow> bool" where
  "contains m [] = (m = [])"
| "contains m (c # cs) = (starts_with m (c # cs) \<or> contains m cs)"

text \<open>
  The lines of a text, cut at every newline (the newlines themselves dropped): the maximal
  runs over which the regular expression atom \<^verbatim>\<open>.\<close> can extend.
\<close>

fun split_lines :: "string \<Rightarrow> string list" where
  "split_lines [] = [[]]"
| "split_lines (c # cs) =
     (if c = newline then [] # split_lines cs
      else (case split_lines cs of
              [] \<Rightarrow> [[c]]
            | l # ls \<Rightarrow> (c # l) # ls))"

text \<open>Python's \<^verbatim>\<open>'\n'.join(xs)\<close>.\<close>

fun join_lines :: "string list \<Rightarrow> string" where
  "join_lines [] = []"
| "join_lines [l] = l"
| "join_lines (l # k # ls) = l @ newline # join_lines (k # ls)"

text \<open>
  \<^verbatim>\<open>re.sub(pattern, repl, string)\<close> first prepares the replacement. A replacement
  without any backslash is taken literally. One whose only backslash is its last character
  is rejected (\<^verbatim>\<open>re.error\<close>: bad escape, end of pattern). Every other replacement is handed
  to the template parser of the regular expression library, which is not part of this
  program: it is the parameter \<open>lib\<close>, giving either an exception or the expansion as a
  function of the matched text.
\<close>

type_synonym template_parser = "string \<Rightarrow> exn + (string \<Rightarrow> string)"

definition compile_repl :: "template_parser \<Rightarrow> string \<Rightarrow> exn + (string \<Rightarrow> string)" where
  "compile_repl lib repl =
     (if backslash \<notin> set repl then Inr (\<lambda>_. repl)
      else if backslash \<notin> set (butlast repl) then Inl ReError
      else lib repl)"

text \<open>
  \<^verbatim>\<open>re.sub("(.*MARKER.*)", repl, text)\<close>, for a marker without newline. Since \<^verbatim>\<open>.\<close> does
  not match a newline, a match is exactly one whole line containing the marker, and
  \<^verbatim>\<open>re.sub\<close> (called without \<^verbatim>\<open>count\<close>) replaces every match.
\<close>

definition re_sub_line :: "template_parser \<Rightarrow> string \<Rightarrow> string \<Rightarrow> string \<Rightarrow> exn + string" where
  "re_sub_line lib marker repl text =
     (case compile_repl lib repl of
        Inl e \<Rightarrow> Inl e
      | Inr expand \<Rightarrow>
          Inr (join_lines (map (\<lambda>l. if contains marker l then expand l else l)
                               (split_lines text))))"

definition camera_marker :: string where
  "camera_marker = ''RaytracingCamera''"

definition content_marker :: string where
  "content_marker = ''RaytracingContent''"

text \<open>
  The merge of \<^verbatim>\<open>Project.render\<close>: \<open>cam\<close> is the camera text, \<open>objstrings\<close> the texts
  of the views, \<open>template\<close> the text of the template file.
\<close>

definition merge_template :: "template_parser \<Rightarrow> string \<Rightarrow> string list \<Rightarrow> string \<Rightarrow> exn + string" where
  "merge_template lib cam objstrings template =
     (let renderobjs = join_lines objstrings in
      if contains camera_marker template then
        (case re_sub_line lib camera_marker cam template of
           Inl e \<Rightarrow> Inl e
         | Inr template' \<Rightarrow> re_sub_line lib content_marker renderobjs template')
      else re_sub_line lib content_marker (cam @ newline # renderobjs) template)"

section \<open>Scene value types\<close>

text \<open>
  Numbers: a Python float is modelled by a real number, so that rounding is left out; the
  tests of the pipeline on numbers are comparisons with zero of values read from the
  scene or of \<open>1 - t\<close> and \<open>1 - t / 100\<close>, which are zero for a float exactly when
  \<open>t\<close> is 1 or 100.
\<close>

type_synonym vec = "real \<times> real \<times> real"

text \<open>A placement: a position and a rotation; the rotation is given by its \<^verbatim>\<open>multVec\<close>.\<close>

record placement =
  Base :: vec
  Rotation :: "vec \<Rightarrow> vec"

text \<open>
  A mesh: \<^verbatim>\<open>Topology[0]\<close> (the points), \<^verbatim>\<open>Topology[1]\<close> (the facets, as index triples)
  and \<^verbatim>\<open>getPointNormals()\<close>.
\<close>

record mesh =
  Points :: "vec list"
  Facets :: "(nat \<times> nat \<times> nat) list"
  PointNormals :: "vec list"

text \<open>The values that the dispatcher hands to a function of a renderer module.\<close>

datatype pyval =
    PNone
  | PStr string
  | PInt int
  | PFloat real
  | PVec vec
  | PPlacement placement
  | PMesh mesh
  | PList "pyval list"
  | PTuple "pyval list"

text \<open>
  A bounding box of the geometry kernel. \<open>None\<close> is the void box that \<^verbatim>\<open>App.BoundBox()\<close>
  creates; \<^verbatim>\<open>add\<close> extends a box so that it encloses another one.
\<close>

record box =
  XMin :: real
  XMax :: real
  YMin :: real
  YMax :: real
  ZMin :: real
  ZMax :: real

type_synonym boundbox = "box option"

definition isValid :: "boundbox \<Rightarrow> bool" where
  "isValid bb = (case bb of
       None \<Rightarrow> False
     | Some b \<Rightarrow> XMin b \<le> XMax b \<and> YMin b \<le> YMax b \<and> ZMin b \<le> ZMax b)"

definition bbox_add :: "boundbox \<Rightarrow> boundbox \<Rightarrow> boundbox" where
  "bbox_add bb other = (case bb of
       None \<Rightarrow> other
     | Some a \<Rightarrow> (case other of
           None \<Rightarrow> Some a
         | Some b \<Rightarrow> Some \<lparr>XMin = min (XMin a) (XMin b), XMax = max (XMax a) (XMax b),
                          YMin = min (YMin a) (YMin b), YMax = max (YMax a) (YMax b),
                          ZMin = min (ZMin a) (ZMin b), ZMax = max (ZMax a) (ZMax b)\<rparr>))"

definition DiagonalLength :: "box \<Rightarrow> real" where
  "DiagonalLength b =
     sqrt ((XMax b - XMin b)\<^sup>2 + (YMax b - YMin b)\<^sup>2 + (ZMax b - ZMin b)\<^sup>2)"

definition point_box :: "vec \<Rightarrow> box" where
  "point_box p = (case p of (x, y, z) \<Rightarrow>
     \<lparr>XMin = x, XMax = x, YMin = y, YMax = y, ZMin = z, ZMax = z\<rparr>)"

text \<open>
  Shapes of the geometry kernel, as far as the pipeline builds or inspects them: a shape
  that comes from the document (known by its bounding box and an identifier), the face
  \<^verbatim>\<open>Part.Face(Part.makePolygon(vertices))\<close> and \<^verbatim>\<open>Part.makeCompound(shapes)\<close>.
\<close>

datatype shape =
    DocShape boundbox nat
  | PolygonFace "vec list"
  | Compound "shape list"

fun BoundBox :: "shape \<Rightarrow> boundbox" where
  "BoundBox (DocShape bb i) = bb"
| "BoundBox (PolygonFace vs) = foldl (\<lambda>bb p. bbox_add bb (Some (point_box p))) None vs"
| "BoundBox (Compound shs) = foldl (\<lambda>bb sh. bbox_add bb (BoundBox sh)) None shs"

section \<open>Views, sources, groups and projects\<close>

text \<open>
  Python objects are read by attribute. An attribute that an object may lack is an option
  field: \<open>None\<close> means that reading it raises \<^verbatim>\<open>AttributeError\<close>, unless the comment of
  the field says that the attribute is present and holds \<^verbatim>\<open>None\<close>.
\<close>

record view_object =
  vo_Visibility :: bool
  vo_ShapeColor :: "real list option"
  vo_Transparency :: "int option"

text \<open>A material object: its \<^verbatim>\<open>PropertiesList\<close> and its \<^verbatim>\<open>Material\<close> dictionary.\<close>

record material =
  m_PropertiesList :: "string list"
  m_Material :: "string \<rightharpoonup> string"

text \<open>
  The source object of a view. \<open>s_Proxy_type\<close> is \<^verbatim>\<open>Proxy.type\<close>; \<open>s_ViewObject\<close> and
  \<open>s_Material\<close> are present attributes that may hold \<^verbatim>\<open>None\<close>; \<open>s_TypeIds\<close> lists the
  types for which \<^verbatim>\<open>isDerivedFrom\<close> answers true; \<open>s_GroupContents\<close> is \<open>None\<close> when the
  source has no attribute \<^verbatim>\<open>Group\<close>, and otherwise gives, for each object of
  \<^verbatim>\<open>Draft.getGroupContents(source)\<close>, its \<^verbatim>\<open>Shape\<close> if it has one.
\<close>

record source =
  s_Name :: string
  s_Label :: string
  s_Proxy_type :: "string option"
  s_ViewObject :: "view_object option"
  s_PropertiesList :: "string list"
  s_Material :: "material option"
  s_TypeIds :: "string list"
  s_GroupContents :: "shape option list option"
  s_Shape :: "shape option"
  s_Mesh :: "mesh option"
  s_AspectRatio :: "real option"
  s_Placement :: "placement option"
  s_Location :: "vec option"
  s_Color :: "pyval option"
  s_Power :: "real option"
  s_SizeU :: "real option"
  s_SizeV :: "real option"

text \<open>
  A view. \<open>v_Source\<close> and \<open>v_Material\<close> are links, \<open>None\<close> when the link is not set
  (the attribute is present and holds \<^verbatim>\<open>None\<close>).
\<close>

record view =
  v_Label :: "string option"
  v_Source :: "source option"
  v_Material :: "material option"
  v_ViewResult :: string

text \<open>What a group holds: views and nested groups.\<close>

datatype docobj =
    ViewObj view
  | GroupObj string "docobj list"

record project =
  p_Name :: string
  p_Label :: string
  p_Renderer :: string
  p_Template :: string
  p_DelayedBuild :: bool
  p_GroundPlane :: "bool option"
  p_Group :: "docobj list"
  p_PageResult :: string
  p_OutputImage :: "string option"
  p_RenderWidth :: "int option"
  p_RenderHeight :: "int option"
  p_OpenAfterRender :: "bool option"

section \<open>The world outside: console, files, document\<close>

datatype io_event =
    ReadFile string
  | MkStemp string
  | WriteFile string
  | RemoveFile string
  | System string
  | OpenImage string

record world =
  console :: "msg list"
  files :: "string \<rightharpoonup> string"
  io_trace :: "io_event list"
  doc_objects :: "string list"

definition print :: "msg list \<Rightarrow> world \<Rightarrow> world" where
  "print ms w = w\<lparr>console := console w @ ms\<rparr>"

definition io :: "io_event \<Rightarrow> world \<Rightarrow> world" where
  "io ev w = w\<lparr>io_trace := io_trace w @ [ev]\<rparr>"

section \<open>Renderer modules\<close>

text \<open>
  A renderer module: its text functions by name, each with the number of its positional
  parameters and its body, and its function \<^verbatim>\<open>render\<close>, which runs the external renderer.
\<close>

type_synonym pyfun = "pyval list \<Rightarrow> exn + string"

type_synonym render_fun =
  "project \<Rightarrow> string \<Rightarrow> bool \<Rightarrow> string \<Rightarrow> int \<Rightarrow> int \<Rightarrow> world \<Rightarrow> (exn + string) \<times> world"

record renderer_module =
  module_functions :: "string \<rightharpoonup> nat \<times> pyfun"
  module_render :: "render_fun option"

text \<open>
  The functions that \<^verbatim>\<open>renderers/Povray.py\<close> defines, each with its parameters, in the
  order of the file.
\<close>

definition Povray_functions :: "(string \<times> string list) list" where
  "Povray_functions =
     [(''write_camera'', [''pos'', ''rot'', ''updir'', ''target'', ''name'']),
      (''write_object'', [''viewobj'', ''mesh'', ''color'', ''alpha'']),
      (''write_pointlight'', [''view'', ''location'', ''color'', ''power'']),
      (''render'', [''project'', ''prefix'', ''external'', ''output'', ''width'', ''height''])]"

text \<open>
  The module \<^verbatim>\<open>renderers.Povray\<close> as the dispatcher sees it: looking a name up gives the
  function of that name, if the file defines one. The bodies are parameters: \<open>bodies\<close>
  for the text functions, \<open>run\<close> for \<^verbatim>\<open>render\<close>.
\<close>

definition Povray :: "(string \<Rightarrow> pyfun) \<Rightarrow> render_fun \<Rightarrow> renderer_module" where
  "Povray bodies run =
     \<lparr>module_functions = map_of (map (\<lambda>(name, params). (name, (length params, bodies name)))
                              (filter (\<lambda>(name, params). name \<noteq> ''render'') Povray_functions)),
      module_render = (if ''render'' \<in> set (map fst Povray_functions) then Some run else None)\<rparr>"

section \<open>Collaborators outside the program\<close>

text \<open>
  What the pipeline takes from its environment: whether the GUI is up and the view
  object that it gives to a new \<^verbatim>\<open>Part::Feature\<close>; the renderer modules that
  \<^verbatim>\<open>import_module\<close> finds; the template parser of \<^verbatim>\<open>re\<close>; \<^verbatim>\<open>float\<close> on strings
  (\<open>None\<close>: \<^verbatim>\<open>ValueError\<close>); the mesher \<^verbatim>\<open>MeshPart.meshFromShape\<close> with the fixed
  deflections of the source; \<^verbatim>\<open>camera.set_cam_from_coin_string\<close> applied to the camera
  string of the session; \<^verbatim>\<open>mkstemp\<close> (prefix, suffix) and \<^verbatim>\<open>os.path.splitext\<close>; the user
  parameter \<^verbatim>\<open>Prefix\<close>; whether \<^verbatim>\<open>ImageGui\<close> was imported.
\<close>

record env =
  GuiUp :: bool
  new_ViewObject :: view_object
  import_module :: "string \<rightharpoonup> renderer_module"
  sre_template :: template_parser
  py_float :: "string \<Rightarrow> real option"
  meshFromShape :: "shape \<Rightarrow> mesh"
  set_cam_from_coin_string :: "source \<Rightarrow> source"
  mkstemp :: "string \<Rightarrow> string \<Rightarrow> string"
  splitext :: "string \<Rightarrow> string \<times> string"
  Prefix :: string
  ImageGui :: bool

section \<open>The dispatcher: \<^verbatim>\<open>RendererHandler\<close>\<close>

text \<open>
  \<^verbatim>\<open>_call_renderer\<close>: \<^verbatim>\<open>getattr\<close> raises \<^verbatim>\<open>AttributeError\<close> when the module has no such
  function; a call with the wrong number of arguments raises \<^verbatim>\<open>TypeError\<close>.
\<close>

definition call_renderer :: "renderer_module \<Rightarrow> string \<Rightarrow> pyval list \<Rightarrow> exn + string" where
  "call_renderer rm method args =
     (case module_functions rm method of
        None \<Rightarrow> Inl AttributeError
      | Some (n, body) \<Rightarrow> if length args = n then body args else Inl TypeError)"

text \<open>Python's \<^verbatim>\<open>s.strip(c)\<close> and \<^verbatim>\<open>s.split(c)\<close> for a single character \<open>c\<close>.\<close>

definition py_strip :: "char \<Rightarrow> string \<Rightarrow> string" where
  "py_strip c s = rev (dropWhile (\<lambda>x. x = c) (rev (dropWhile (\<lambda>x. x = c) s)))"

fun py_split :: "char \<Rightarrow> string \<Rightarrow> string list" where
  "py_split sep [] = [[]]"
| "py_split sep (c # cs) =
     (if c = sep then [] # py_split sep cs
      else (case py_split sep cs of
              [] \<Rightarrow> [[c]]
            | l # ls \<Rightarrow> (c # l) # ls))"

text \<open>
  Truth values of Python: \<^verbatim>\<open>not color\<close> holds for \<^verbatim>\<open>None\<close> and for an empty sequence,
  \<^verbatim>\<open>not alpha\<close> for \<^verbatim>\<open>None\<close> and for zero.
\<close>

fun truthy_color :: "pyval option \<Rightarrow> bool" where
  "truthy_color None = False"
| "truthy_color (Some (PList xs)) = (xs \<noteq> [])"
| "truthy_color (Some (PTuple xs)) = (xs \<noteq> [])"
| "truthy_color (Some PNone) = False"
| "truthy_color (Some v) = True"

fun truthy_alpha :: "real option \<Rightarrow> bool" where
  "truthy_alpha None = False"
| "truthy_alpha (Some a) = (a \<noteq> 0)"

text \<open>The first part of \<^verbatim>\<open>_render_object\<close>: which material, then color and alpha.\<close>

definition select_material :: "view \<Rightarrow> source \<Rightarrow> material option" where
  "select_material v src =
     (case v_Material v of
        Some m \<Rightarrow> Some m
      | None \<Rightarrow>
          if ''Material'' \<in> set (s_PropertiesList src) then s_Material src else None)"

definition material_color :: "material \<Rightarrow> pyval option" where
  "material_color mat =
     (if ''Material'' \<in> set (m_PropertiesList mat) then
        (case m_Material mat ''DiffuseColor'' of
           None \<Rightarrow> None
         | Some s \<Rightarrow>
             Some (PList (map PStr
               (take 3 (py_split CHR '','' (py_strip CHR '')'' (py_strip CHR ''('' s)))))))
      else None)"

definition material_alpha :: "env \<Rightarrow> material \<Rightarrow> exn + real option" where
  "material_alpha env mat =
     (if ''Material'' \<in> set (m_PropertiesList mat) then
        (case m_Material mat ''Transparency'' of
           None \<Rightarrow> Inr None
         | Some s \<Rightarrow>
             (case py_float env s of
                None \<Rightarrow> Inl ValueError
              | Some t \<Rightarrow> Inr (Some (if t > 0 then 1 - t else 1))))
      else Inr None)"

definition white :: pyval where
  "white = PTuple [PFloat 1, PFloat 1, PFloat 1]"

definition resolve_color_alpha :: "env \<Rightarrow> view \<Rightarrow> source \<Rightarrow> exn + pyval \<times> real" where
  "resolve_color_alpha env v src =
     (case (case select_material v src of
              None \<Rightarrow> Inr (None, None)
            | Some mat \<Rightarrow>
                (case material_alpha env mat of
                   Inl e \<Rightarrow> Inl e
                 | Inr a \<Rightarrow> Inr (material_color mat, a))) of
        Inl e \<Rightarrow> Inl e
      | Inr (color0, alpha0) \<Rightarrow>
          (let color1 =
                 (case s_ViewObject src of
                    None \<Rightarrow> color0
                  | Some vobj \<Rightarrow>
                      if \<not> truthy_color color0 then
                        (case vo_ShapeColor vobj of
                           None \<Rightarrow> color0
                         | Some c \<Rightarrow> Some (PTuple (map PFloat (take 3 c))))
                      else color0);
               alpha1 =
                 (case s_ViewObject src of
                    None \<Rightarrow> alpha0
                  | Some vobj \<Rightarrow>
                      if \<not> truthy_alpha alpha0 then
                        (case vo_Transparency vobj of
                           None \<Rightarrow> alpha0
                         | Some t \<Rightarrow> if t > 0 then Some (1 - real_of_int t / 100) else alpha0)
                      else alpha0)
           in Inr (case color1 of
                     None \<Rightarrow> white
                   | Some c \<Rightarrow> if truthy_color color1 then c else white,
                   case alpha1 of
                     None \<Rightarrow> 1
                   | Some a \<Rightarrow> if truthy_alpha alpha1 then a else 1)))"

text \<open>The second part of \<^verbatim>\<open>_render_object\<close>: the mesh (\<open>None\<close> when no case applies).\<close>

definition get_mesh :: "env \<Rightarrow> source \<Rightarrow> exn + mesh option" where
  "get_mesh env src =
     (case s_GroupContents src of
        Some objs \<Rightarrow> Inr (Some (meshFromShape env (Compound [sh. Some sh \<leftarrow> objs])))
      | None \<Rightarrow>
          if ''Part::Feature'' \<in> set (s_TypeIds src) then
            (case s_Shape src of
               None \<Rightarrow> Inl AttributeError
             | Some sh \<Rightarrow> Inr (Some (meshFromShape env sh)))
          else if ''Mesh::Feature'' \<in> set (s_TypeIds src) then
            (case s_Mesh src of
               None \<Rightarrow> Inl AttributeError
             | Some m \<Rightarrow> Inr (Some m))
          else Inr None)"

definition render_object :: "env \<Rightarrow> renderer_module \<Rightarrow> string \<Rightarrow> view \<Rightarrow> exn + string" where
  "render_object env rm name v =
     (case v_Source v of
        None \<Rightarrow> Inl AttributeError
      | Some src \<Rightarrow>
          (case resolve_color_alpha env v src of
             Inl e \<Rightarrow> Inl e
           | Inr (color, alpha) \<Rightarrow>
               (case get_mesh env src of
                  Inl e \<Rightarrow> Inl e
                | Inr None \<Rightarrow> Inl AssertionError
                | Inr (Some m) \<Rightarrow>
                    if Points m = [] \<or> Facets m = [] then Inl AssertionError
                    else if PointNormals m = [] then Inl AssertionError
                    else call_renderer rm ''write_object''
                           [PStr name, PMesh m, color, PFloat alpha])))"

fun vadd :: "vec \<Rightarrow> vec \<Rightarrow> vec" where
  "vadd (x, y, z) (x', y', z') = (x + x', y + y', z + z')"

fun vmultiply :: "vec \<Rightarrow> real \<Rightarrow> vec" where
  "vmultiply (x, y, z) k = (x * k, y * k, z * k)"

definition render_camera :: "env \<Rightarrow> renderer_module \<Rightarrow> string \<Rightarrow> view \<Rightarrow> exn + string" where
  "render_camera env rm name v =
     (case v_Source v of
        None \<Rightarrow> Inl AttributeError
      | Some cam \<Rightarrow>
          (case s_AspectRatio cam of
             None \<Rightarrow> Inl AttributeError
           | Some a_ratio \<Rightarrow>
               (case s_Placement cam of
                  None \<Rightarrow> Inl AttributeError
                | Some pos \<Rightarrow>
                    (let target = vadd (Base pos) (vmultiply (Rotation pos (0, 0, -1)) a_ratio);
                         updir = Rotation pos (0, 1, 0)
                     in call_renderer rm ''write_camera''
                          [PStr name, PPlacement pos, PVec updir, PVec target]))))"

definition render_pointlight :: "env \<Rightarrow> renderer_module \<Rightarrow> string \<Rightarrow> view \<Rightarrow> exn + string" where
  "render_pointlight env rm name v =
     (case v_Source v of
        None \<Rightarrow> Inl AttributeError
      | Some src \<Rightarrow>
          (case s_Location src of
             None \<Rightarrow> Inl AttributeError
           | Some location \<Rightarrow>
               (case s_Color src of
                  None \<Rightarrow> Inl AttributeError
                | Some color \<Rightarrow>
                    (let light_power = (case s_Power src of None \<Rightarrow> PInt 60 | Some pw \<Rightarrow> PFloat pw)
                     in call_renderer rm ''write_pointlight''
                          [PStr name, PVec location, color, light_power]))))"

definition render_arealight :: "env \<Rightarrow> renderer_module \<Rightarrow> string \<Rightarrow> view \<Rightarrow> exn + string" where
  "render_arealight env rm name v =
     (case v_Source v of
        None \<Rightarrow> Inl AttributeError
      | Some src \<Rightarrow>
          (case s_Placement src of
             None \<Rightarrow> Inl AttributeError
           | Some placement \<Rightarrow>
               (case s_Color src of
                  None \<Rightarrow> Inl AttributeError
                | Some color \<Rightarrow>
                    (case s_Power src of
                       None \<Rightarrow> Inl AttributeError
                     | Some light_power \<Rightarrow>
                         (case s_SizeU src of
                            None \<Rightarrow> Inl AttributeError
                          | Some size_u \<Rightarrow>
                              (case s_SizeV src of
                                 None \<Rightarrow> Inl AttributeError
                               | Some size_v \<Rightarrow>
                                   call_renderer rm ''write_arealight''
                                     [PStr name, PPlacement placement, PFloat size_u,
                                      PFloat size_v, color, PFloat light_power]))))))"

text \<open>The table of \<^verbatim>\<open>get_rendering_string\<close>, from the kind of the source to its handler.\<close>

definition switcher ::
  "string \<Rightarrow> (env \<Rightarrow> renderer_module \<Rightarrow> string \<Rightarrow> view \<Rightarrow> exn + string) option" where
  "switcher objtype =
     (if objtype = ''Object'' then Some render_object
      else if objtype = ''PointLight'' then Some render_pointlight
      else if objtype = ''Camera'' then Some render_camera
      else if objtype = ''AreaLight'' then Some render_arealight
      else None)"

text \<open>The body of the \<^verbatim>\<open>try\<close> of \<^verbatim>\<open>get_rendering_string\<close>.\<close>

definition dispatch :: "env \<Rightarrow> renderer_module \<Rightarrow> view \<Rightarrow> exn + string" where
  "dispatch env rm v =
     (case v_Source v of
        None \<Rightarrow> Inl AttributeError
      | Some source \<Rightarrow>
          (let objtype = (case s_Proxy_type source of None \<Rightarrow> ''Object'' | Some t \<Rightarrow> t);
               name = s_Name source
           in case switcher objtype of
                None \<Rightarrow> Inl KeyError
              | Some handler \<Rightarrow> handler env rm name v))"

text \<open>
  \<^verbatim>\<open>get_rendering_string\<close>: the text for the view and the warnings printed. The
  \<^verbatim>\<open>except\<close> clause names three exception classes; any other exception leaves the
  function.
\<close>

definition view_label_or_default :: "view \<Rightarrow> string" where
  "view_label_or_default v = (case v_Label v of None \<Rightarrow> ''<No label>'' | Some l \<Rightarrow> l)"

definition get_rendering_string :: "env \<Rightarrow> renderer_module \<Rightarrow> view \<Rightarrow> exn + string \<times> msg list" where
  "get_rendering_string env rm v =
     (case dispatch env rm v of
        Inr res \<Rightarrow> Inr (res, [])
      | Inl err \<Rightarrow>
          if err = AttributeError \<or> err = TypeError \<or> err = AssertionError then
            Inr ([], [PrintWarning (view_label_or_default v) err])
          else Inl err)"

section \<open>The pipeline: \<^verbatim>\<open>Project\<close>\<close>

text \<open>
  \<^verbatim>\<open>all_views\<close>: the inner function \<^verbatim>\<open>all_group_objs\<close> runs over the members of a group
  and extends the result by the member itself, or by the result for the member when the
  member is a group.
\<close>

fun all_group_objs :: "docobj list \<Rightarrow> docobj list" where
  "all_group_objs [] = []"
| "all_group_objs (ViewObj v # objs) = ViewObj v # all_group_objs objs"
| "all_group_objs (GroupObj label members # objs) = all_group_objs members @ all_group_objs objs"

definition all_views :: "project \<Rightarrow> docobj list" where
  "all_views p = all_group_objs (p_Group p)"

text \<open>
  The member of a group tree at a path of positions, and the order of the document on
  paths (the order of a depth-first walk).
\<close>

fun member_at :: "docobj list \<Rightarrow> nat list \<Rightarrow> docobj option" where
  "member_at objs [] = None"
| "member_at objs [i] = (if i < length objs then Some (objs ! i) else None)"
| "member_at objs (i # j # path) =
     (if i < length objs then
        (case objs ! i of
           ViewObj v \<Rightarrow> None
         | GroupObj label members \<Rightarrow> member_at members (j # path))
      else None)"

fun path_before :: "nat list \<Rightarrow> nat list \<Rightarrow> bool" where
  "path_before [] [] = False"
| "path_before [] (j # q) = True"
| "path_before (i # p) [] = False"
| "path_before (i # p) (j # q) = (i < j \<or> (i = j \<and> path_before p q))"

fun is_group :: "docobj \<Rightarrow> bool" where
  "is_group (ViewObj v) = False"
| "is_group (GroupObj label members) = True"

text \<open>
  \<^verbatim>\<open>v.Source.ViewObject.Visibility\<close>, the filter of the list of rendering strings: a
  group has no \<^verbatim>\<open>Source\<close>, an unset link or a missing view object has no attribute to
  read.
\<close>

definition Visibility :: "docobj \<Rightarrow> exn + bool" where
  "Visibility obj =
     (case obj of
        GroupObj label members \<Rightarrow> Inl AttributeError
      | ViewObj v \<Rightarrow>
          (case v_Source v of
             None \<Rightarrow> Inl AttributeError
           | Some src \<Rightarrow>
               (case s_ViewObject src of
                  None \<Rightarrow> Inl AttributeError
                | Some vobj \<Rightarrow> Inr (vo_Visibility vobj))))"

text \<open>
  \<^verbatim>\<open>get_rdr_string\<close>: the dispatcher when the project has \<^verbatim>\<open>DelayedBuild\<close>, and the
  attribute \<^verbatim>\<open>ViewResult\<close> otherwise.
\<close>

definition get_rdr_string ::
  "env \<Rightarrow> renderer_module \<Rightarrow> bool \<Rightarrow> docobj \<Rightarrow> exn + string \<times> msg list" where
  "get_rdr_string env rm delayed obj =
     (case obj of
        GroupObj label members \<Rightarrow> Inl AttributeError
      | ViewObj v \<Rightarrow>
          if delayed then get_rendering_string env rm v else Inr (v_ViewResult v, []))"

text \<open>
  The list comprehension that builds \<^verbatim>\<open>objstrings\<close>: the result, or the exception that
  ends it, and the warnings printed on the way.
\<close>

fun objstrings ::
  "env \<Rightarrow> renderer_module \<Rightarrow> bool \<Rightarrow> docobj list \<Rightarrow> (exn + string list) \<times> msg list" where
  "objstrings env rm delayed [] = (Inr [], [])"
| "objstrings env rm delayed (obj # objs) =
     (case Visibility obj of
        Inl e \<Rightarrow> (Inl e, [])
      | Inr False \<Rightarrow> objstrings env rm delayed objs
      | Inr True \<Rightarrow>
          (case get_rdr_string env rm delayed obj of
             Inl e \<Rightarrow> (Inl e, [])
           | Inr (s, ms) \<Rightarrow>
               (case objstrings env rm delayed objs of
                  (Inl e, ms') \<Rightarrow> (Inl e, ms @ ms')
                | (Inr ss, ms') \<Rightarrow> (Inr (s # ss), ms @ ms'))))"

subsection \<open>The ground plane\<close>

text \<open>
  The loop of \<^verbatim>\<open>write_groundplane\<close> over \<^verbatim>\<open>self.fpo.Group\<close>, and one turn of it: a
  member without \<^verbatim>\<open>Source.Shape\<close> (a nested group, a view without source, a source
  without shape) is passed over.
\<close>

definition bbox_step :: "boundbox \<Rightarrow> docobj \<Rightarrow> boundbox" where
  "bbox_step bbox obj =
     (case obj of
        GroupObj label ms \<Rightarrow> bbox
      | ViewObj v \<Rightarrow>
          (case v_Source v of
             None \<Rightarrow> bbox
           | Some src \<Rightarrow>
               (case s_Shape src of
                  None \<Rightarrow> bbox
                | Some sh \<Rightarrow> bbox_add bbox (BoundBox sh))))"

definition scene_bbox :: "docobj list \<Rightarrow> boundbox" where
  "scene_bbox members = foldl bbox_step None members"

definition groundplane_vertices :: "box \<Rightarrow> vec list" where
  "groundplane_vertices bbox =
     (let margin = DiagonalLength bbox / 2;
          vertices = [(XMin bbox - margin, YMin bbox - margin, 0),
                      (XMax bbox + margin, YMin bbox - margin, 0),
                      (XMax bbox + margin, YMax bbox + margin, 0),
                      (XMin bbox - margin, YMax bbox + margin, 0)]
      in vertices @ [(XMin bbox - margin, YMin bbox - margin, 0)])"

text \<open>
  The two temporary objects: the \<^verbatim>\<open>Part::Feature\<close> that carries the face, and the view
  on it.
\<close>

definition dummy1 :: "env \<Rightarrow> box \<Rightarrow> source" where
  "dummy1 env bbox =
     \<lparr>s_Name = ''dummygroundplane1'', s_Label = ''dummygroundplane1'',
      s_Proxy_type = None,
      s_ViewObject = (if GuiUp env then Some (new_ViewObject env) else None),
      s_PropertiesList = [''Label'', ''Placement'', ''Shape''],
      s_Material = None,
      s_TypeIds = [''Part::Feature'', ''App::GeoFeature'', ''App::DocumentObject''],
      s_GroupContents = None,
      s_Shape = Some (PolygonFace (groundplane_vertices bbox)),
      s_Mesh = None, s_AspectRatio = None, s_Placement = None, s_Location = None,
      s_Color = None, s_Power = None, s_SizeU = None, s_SizeV = None\<rparr>"

definition dummy2 :: "env \<Rightarrow> box \<Rightarrow> view" where
  "dummy2 env bbox =
     \<lparr>v_Label = Some ''dummygroundplane2'', v_Source = Some (dummy1 env bbox),
      v_Material = None, v_ViewResult = []\<rparr>"

definition write_groundplane ::
  "env \<Rightarrow> renderer_module \<Rightarrow> project \<Rightarrow> world \<Rightarrow> (exn + string) \<times> world" where
  "write_groundplane env rm p w =
     (case scene_bbox (p_Group p) of
        None \<Rightarrow> (Inr [], w)
      | Some bbox \<Rightarrow>
          if isValid (Some bbox) then
            (let w1 = w\<lparr>doc_objects :=
                         doc_objects w @ [''dummygroundplane1'', ''dummygroundplane2'']\<rparr>
             in if \<not> GuiUp env then (Inl AttributeError, w1)
                else
                  (case get_rendering_string env rm (dummy2 env bbox) of
                     Inl e \<Rightarrow> (Inl e, w1)
                   | Inr (result, ms) \<Rightarrow>
                       (Inr result,
                        (print ms w1)\<lparr>doc_objects :=
                           filter (\<lambda>n. n \<noteq> ''dummygroundplane2'' \<and> n \<noteq> ''dummygroundplane1'')
                                  (doc_objects w1)\<rparr>)))
          else (Inr [], w))"

text \<open>
  The step of \<^verbatim>\<open>render\<close> that appends the ground plane when
  \<^verbatim>\<open>getattr(obj, "GroundPlane", False)\<close> holds.
\<close>

definition add_groundplane ::
  "env \<Rightarrow> renderer_module \<Rightarrow> project \<Rightarrow> string list \<Rightarrow> world
     \<Rightarrow> (exn + string list) \<times> world" where
  "add_groundplane env rm p strings w =
     (if p_GroundPlane p = Some True then
        (case write_groundplane env rm p w of
           (Inl e, w') \<Rightarrow> (Inl e, w')
         | (Inr ground, w') \<Rightarrow> (Inr (strings @ [ground]), w'))
      else (Inr strings, w))"

subsection \<open>\<^verbatim>\<open>Project.render\<close>\<close>

text \<open>
  The constructor of \<^verbatim>\<open>RendererHandler\<close>: it prints an error and raises when the module
  is not found.
\<close>

definition RendererHandler :: "env \<Rightarrow> string \<Rightarrow> world \<Rightarrow> (exn + renderer_module) \<times> world" where
  "RendererHandler env rdrname w =
     (case import_module env rdrname of
        None \<Rightarrow>
          (Inl ModuleNotFoundError,
           print [PrintError (''Import Error: Renderer '' @ [CHR 0x27] @ rdrname @ [CHR 0x27]
                              @ '' not found'' @ [newline])] w)
      | Some rm \<Rightarrow> (Inr rm, w))"

definition view_label :: "string \<Rightarrow> string \<Rightarrow> string" where
  "view_label obj_label proj_label =
     obj_label @ ''@'' @ filter (\<lambda>c. c \<noteq> CHR '' '') proj_label"

text \<open>The default camera, a view made on the spot whose source has the kind \<^verbatim>\<open>Camera\<close>.\<close>

definition defaultcamview :: "env \<Rightarrow> project \<Rightarrow> view" where
  "defaultcamview env p =
     \<lparr>v_Label = Some (view_label ''Default_Camera'' (p_Label p)),
      v_Source = Some (set_cam_from_coin_string env
        \<lparr>s_Name = ''Default_Camera'', s_Label = ''Default_Camera'',
         s_Proxy_type = Some ''Camera'', s_ViewObject = None, s_PropertiesList = [],
         s_Material = None, s_TypeIds = [], s_GroupContents = None, s_Shape = None,
         s_Mesh = None, s_AspectRatio = None, s_Placement = None, s_Location = None,
         s_Color = None, s_Power = None, s_SizeU = None, s_SizeV = None\<rparr>),
      v_Material = None, v_ViewResult = []\<rparr>"

text \<open>
  The last part of \<^verbatim>\<open>render\<close>, from the temporary file on: the merged text is written to
  a new temporary file, whose path becomes \<^verbatim>\<open>PageResult\<close>, and the file is removed; then
  the module's \<^verbatim>\<open>render\<close> runs and the image is opened if the project asks for it.
\<close>

definition run_renderer ::
  "env \<Rightarrow> renderer_module \<Rightarrow> bool \<Rightarrow> string \<Rightarrow> project \<Rightarrow> world
     \<Rightarrow> (exn + string) \<times> project \<times> world" where
  "run_renderer env rm external merged p w =
     (let fpath = mkstemp env (p_Name p) (snd (splitext env (p_Template p)));
          w1 = (io (MkStemp fpath) w)\<lparr>files := (files w)(fpath \<mapsto> [])\<rparr>;
          w2 = (io (WriteFile fpath) w1)\<lparr>files := (files w1)(fpath \<mapsto> merged)\<rparr>;
          p' = p\<lparr>p_PageResult := fpath\<rparr>;
          w3 = (io (RemoveFile fpath) w2)\<lparr>files := (files w2)(fpath := None)\<rparr>
      in if fpath = [] then (Inl AssertionError, p', w3)
         else
           (let prefix = (if Prefix env \<noteq> [] then Prefix env @ '' '' else []);
                derived = fst (splitext env fpath) @ ''.png'';
                output = (case p_OutputImage p' of
                            None \<Rightarrow> derived
                          | Some out \<Rightarrow> if out \<noteq> [] then out else derived);
                width = (case p_RenderWidth p' of None \<Rightarrow> 800 | Some n \<Rightarrow> n);
                height = (case p_RenderHeight p' of None \<Rightarrow> 600 | Some n \<Rightarrow> n)
            in case module_render rm of
                 None \<Rightarrow> (Inl AttributeError, p', w3)
               | Some run \<Rightarrow>
                   (case run p' prefix external output width height w3 of
                      (Inl e, w4) \<Rightarrow> (Inl e, p', w4)
                    | (Inr img, w4) \<Rightarrow>
                        (Inr img, p',
                         if img \<noteq> [] \<and> p_OpenAfterRender p' = Some True \<and> ImageGui env
                         then io (OpenImage img) w4 else w4))))"

text \<open>
  \<^verbatim>\<open>Project.render\<close>: the value returned or the exception raised, the project (its
  \<^verbatim>\<open>PageResult\<close> may have changed) and the world afterwards.
\<close>

definition render :: "env \<Rightarrow> bool \<Rightarrow> project \<Rightarrow> world \<Rightarrow> (exn + string) \<times> project \<times> world" where
  "render env external p w =
     (case RendererHandler env (p_Renderer p) w of
        (Inl e, w0) \<Rightarrow>
          if e = ModuleNotFoundError then
            (Inr [], p,
             print [PrintError (''Cannot render project: Renderer '' @ [CHR 0x27] @ p_Renderer p
                                @ [CHR 0x27] @ '' not found'' @ [newline])] w0)
          else (Inl e, p, w0)
      | (Inr rm, w0) \<Rightarrow>
          (case (if p_Template p = [] then None else files w0 (p_Template p)) of
             None \<Rightarrow> (Inl AssertionError, p, w0)
           | Some template \<Rightarrow>
               (let w1 = io (ReadFile (p_Template p)) w0 in
                case get_rendering_string env rm (defaultcamview env p) of
                  Inl e \<Rightarrow> (Inl e, p, w1)
                | Inr (cam, ms) \<Rightarrow>
                    (let w2 = print ms w1 in
                     case objstrings env rm (p_DelayedBuild p) (all_views p) of
                       (Inl e, ms') \<Rightarrow> (Inl e, p, print ms' w2)
                     | (Inr strings, ms') \<Rightarrow>
                         (let w3 = print ms' w2 in
                          case add_groundplane env rm p strings w3 of
                            (Inl e, w4) \<Rightarrow> (Inl e, p, w4)
                          | (Inr strings', w4) \<Rightarrow>
                              (case merge_template (sre_template env) cam strings' template of
                                 Inl e \<Rightarrow> (Inl e, p, w4)
                               | Inr merged \<Rightarrow> run_renderer env rm external merged p w4))))))"

section \<open>Notions used to state the properties\<close>

text \<open>
  A member counts as visible when the filter of \<^verbatim>\<open>render\<close> reads \<^verbatim>\<open>True\<close> for it. The
  cached text of a member is its \<^verbatim>\<open>ViewResult\<close>; the recomputed text is what the
  dispatcher returns for it now.
\<close>

definition visible :: "docobj \<Rightarrow> bool" where
  "visible obj = (Visibility obj = Inr True)"




text \<open>The three exception classes that the \<^verbatim>\<open>except\<close> clause of the dispatcher names.\<close>

definition caught :: "exn \<Rightarrow> bool" where
  "caught e = (e = AttributeError \<or> e = TypeError \<or> e = AssertionError)"

text \<open>The four kinds of source of the table of the dispatcher.\<close>

definition known_kinds :: "string list" where
  "known_kinds = [''Object'', ''PointLight'', ''Camera'', ''AreaLight'']"

text \<open>
  The paths of the views of a group tree, in the order of a depth-first walk; \<open>k\<close> is
  the position of the first member of the list in its group.
\<close>

fun paths_from :: "nat \<Rightarrow> docobj list \<Rightarrow> nat list list" where
  "paths_from k [] = []"
| "paths_from k (ViewObj v # objs) = [k] # paths_from (Suc k) objs"
| "paths_from k (GroupObj label members # objs) =
     map ((#) k) (paths_from 0 members) @ paths_from (Suc k) objs"

text \<open>
  The box of the shape of the source of a member, if it has one, the list of these boxes
  for a list of members, and the union of a list of boxes: void for no box, and otherwise
  the box from the least lower bounds to the greatest upper bounds.
\<close>

fun shape_box :: "docobj \<Rightarrow> boundbox" where
  "shape_box (ViewObj v) =
     (case v_Source v of
        None \<Rightarrow> None
      | Some src \<Rightarrow> (case s_Shape src of None \<Rightarrow> None | Some sh \<Rightarrow> BoundBox sh))"
| "shape_box (GroupObj label members) = None"

definition shape_boxes :: "docobj list \<Rightarrow> box list" where
  "shape_boxes objs = [b. Some b \<leftarrow> map shape_box objs]"

definition union_box :: "box list \<Rightarrow> boundbox" where
  "union_box bs =
     (if bs = [] then None
      else Some \<lparr>XMin = Min (set (map XMin bs)), XMax = Max (set (map XMax bs)),
                 YMin = Min (set (map YMin bs)), YMax = Max (set (map YMax bs)),
                 ZMin = Min (set (map ZMin bs)), ZMax = Max (set (map ZMax bs))\<rparr>)"

section \<open>Sample data\<close>

text \<open>
  A small environment and scene on which the properties below are evaluated. The module
  \<open>sample_module\<close> has the four text functions, each returning a fixed word, and a
  \<^verbatim>\<open>render\<close> that runs one command and returns the output path. In \<open>sample_env\<close> the
  mesher gives one triangle for every shape; the template parser and \<^verbatim>\<open>float\<close> are
  stand-ins that the samples never reach (no sample replacement has a backslash before
  its last character, no sample material has a transparency).
\<close>

definition sample_parser :: template_parser where
  "sample_parser repl = Inr (\<lambda>matched. repl)"

definition sample_mesh :: mesh where
  "sample_mesh =
     \<lparr>Points = [(0, 0, 0), (1, 0, 0), (0, 1, 0)], Facets = [(0, 1, 2)],
      PointNormals = [(0, 0, 1), (0, 0, 1), (0, 0, 1)]\<rparr>"

definition sample_run :: render_fun where
  "sample_run p prefix external output width height w =
     (Inr output, io (System (prefix @ ''renderer '' @ p_PageResult p)) w)"

definition sample_module :: renderer_module where
  "sample_module =
     \<lparr>module_functions =
        [''write_camera'' \<mapsto> (4, \<lambda>args. Inr ''camera''),
         ''write_object'' \<mapsto> (4, \<lambda>args. Inr ''object''),
         ''write_pointlight'' \<mapsto> (4, \<lambda>args. Inr ''pointlight''),
         ''write_arealight'' \<mapsto> (6, \<lambda>args. Inr ''arealight'')],
      module_render = Some sample_run\<rparr>"

definition sample_view_object :: "bool \<Rightarrow> int \<Rightarrow> view_object" where
  "sample_view_object vis transparency =
     \<lparr>vo_Visibility = vis, vo_ShapeColor = Some [4 / 5, 4 / 5, 4 / 5, 0],
      vo_Transparency = Some transparency\<rparr>"

definition blank_source :: "string \<Rightarrow> source" where
  "blank_source name =
     \<lparr>s_Name = name, s_Label = name, s_Proxy_type = None, s_ViewObject = None,
      s_PropertiesList = [], s_Material = None, s_TypeIds = [], s_GroupContents = None,
      s_Shape = None, s_Mesh = None, s_AspectRatio = None, s_Placement = None,
      s_Location = None, s_Color = None, s_Power = None, s_SizeU = None, s_SizeV = None\<rparr>"

definition sample_env :: env where
  "sample_env =
     \<lparr>GuiUp = True,
      new_ViewObject = sample_view_object True 0,
      import_module = [''Sample'' \<mapsto> sample_module],
      sre_template = sample_parser,
      py_float = (\<lambda>s. None),
      meshFromShape = (\<lambda>sh. sample_mesh),
      set_cam_from_coin_string =
        (\<lambda>src. src\<lparr>s_AspectRatio := Some 1,
                     s_Placement := Some \<lparr>Base = (0, 0, 10), Rotation = (\<lambda>v. v)\<rparr>\<rparr>),
      mkstemp = (\<lambda>prefix suffix. ''/tmp/'' @ prefix @ suffix),
      splitext = (\<lambda>path. (path, [])),
      Prefix = [],
      ImageGui = False\<rparr>"

text \<open>A box of diagonal 3, a part with that shape, and a view on a source.\<close>

definition sample_box :: box where
  "sample_box = \<lparr>XMin = 0, XMax = 2, YMin = 0, YMax = 1, ZMin = 0, ZMax = 2\<rparr>"

definition sample_part :: "string \<Rightarrow> bool \<Rightarrow> int \<Rightarrow> source" where
  "sample_part name vis transparency =
     (blank_source name)
       \<lparr>s_ViewObject := Some (sample_view_object vis transparency),
        s_PropertiesList := [''Label'', ''Placement'', ''Shape''],
        s_TypeIds := [''Part::Feature'', ''App::GeoFeature'', ''App::DocumentObject''],
        s_Shape := Some (DocShape (Some sample_box) 0)\<rparr>"

definition view_on :: "source \<Rightarrow> string \<Rightarrow> view" where
  "view_on src result =
     \<lparr>v_Label = Some (s_Name src @ ''View''), v_Source = Some src, v_Material = None,
      v_ViewResult = result\<rparr>"

definition sample_kind :: "string \<Rightarrow> string \<Rightarrow> source" where
  "sample_kind name kind =
     (blank_source name)
       \<lparr>s_Proxy_type := Some kind, s_ViewObject := Some (sample_view_object True 0),
        s_TypeIds := [''App::FeaturePython'', ''App::DocumentObject'']\<rparr>"

definition sample_arealight :: source where
  "sample_arealight =
     (sample_kind ''Panel'' ''AreaLight'')
       \<lparr>s_Placement := Some \<lparr>Base = (0, 0, 5), Rotation = (\<lambda>v. v)\<rparr>,
        s_Color := Some (PTuple [PFloat 1, PFloat 1, PFloat 1]),
        s_Power := Some 60, s_SizeU := Some 2, s_SizeV := Some 2\<rparr>"

definition sample_project :: "string \<Rightarrow> docobj list \<Rightarrow> project" where
  "sample_project renderer members =
     \<lparr>p_Name = ''Project'', p_Label = ''Sample Project'', p_Renderer = renderer,
      p_Template = ''/templates/sample.pov'', p_DelayedBuild = True, p_GroundPlane = Some True,
      p_Group = members, p_PageResult = [], p_OutputImage = None, p_RenderWidth = None,
      p_RenderHeight = None, p_OpenAfterRender = None\<rparr>"

definition sample_world :: world where
  "sample_world =
     \<lparr>console = [],
      files = [''/templates/sample.pov'' \<mapsto> ''//RaytracingCamera'' @ newline # ''//RaytracingContent''],
      io_trace = [], doc_objects = []\<rparr>"

text \<open>
  Two parts away from the origin, the second one hidden, and the union of their boxes, of
  diagonal 3.
\<close>

definition near_box :: box where
  "near_box = \<lparr>XMin = 1, XMax = 2, YMin = 1, YMax = 2, ZMin = 1, ZMax = 3\<rparr>"

definition far_box :: box where
  "far_box = \<lparr>XMin = 2, XMax = 3, YMin = 1, YMax = 2, ZMin = 1, ZMax = 2\<rparr>"

definition boxed_part :: "string \<Rightarrow> bool \<Rightarrow> box \<Rightarrow> source" where
  "boxed_part name vis b = (sample_part name vis 0)\<lparr>s_Shape := Some (DocShape (Some b) 1)\<rparr>"

definition two_parts :: "docobj list" where
  "two_parts = [ViewObj (view_on (boxed_part ''Near'' True near_box) []),
                ViewObj (view_on (boxed_part ''Far'' False far_box) [])]"

definition union_of_two :: box where
  "union_of_two = \<lparr>XMin = 1, XMax = 3, YMin = 1, YMax = 2, ZMin = 1, ZMax = 3\<rparr>"

section \<open>Lines of a text\<close>

lemma starts_with_iff: "starts_with m s \<longleftrightarrow> (\<exists>q. s = m @ q)"
  by (induction m s rule: starts_with.induct) auto

lemma contains_iff: "contains m s \<longleftrightarrow> (\<exists>p q. s = p @ m @ q)"
proof (induction s)
  case Nil
  then show ?case by auto
next
  case (Cons c cs)
  show ?case
  proof
    assume "contains m (c # cs)"
    then consider "starts_with m (c # cs)" | "contains m cs" by auto
    then show "\<exists>p q. c # cs = p @ m @ q"
    proof cases
      case 1
      then obtain q where "c # cs = m @ q" by (auto simp: starts_with_iff)
      then have "c # cs = [] @ m @ q" by simp
      then show ?thesis by blast
    next
      case 2
      then obtain p q where "cs = p @ m @ q" using Cons.IH by blast
      then have "c # cs = (c # p) @ m @ q" by simp
      then show ?thesis by blast
    qed
  next
    assume "\<exists>p q. c # cs = p @ m @ q"
    then obtain p q where pq: "c # cs = p @ m @ q" by blast
    show "contains m (c # cs)"
    proof (cases p)
      case Nil
      with pq have "starts_with m (c # cs)" by (auto simp: starts_with_iff)
      then show ?thesis by simp
    next
      case (Cons a p')
      with pq have "cs = p' @ m @ q" by simp
      then have "contains m cs" using Cons.IH by blast
      then show ?thesis by simp
    qed
  qed
qed

lemma split_lines_nonempty: "split_lines s \<noteq> []"
  by (induction s) (auto split: list.splits)

lemma join_split_lines: "join_lines (split_lines s) = s"
proof (induction s)
  case Nil
  then show ?case by simp
next
  case (Cons c cs)
  obtain l ls where sp: "split_lines cs = l # ls"
    using split_lines_nonempty[of cs] by (cases "split_lines cs") auto
  show ?case
  proof (cases "c = newline")
    case True
    with Cons sp show ?thesis by simp
  next
    case False
    with Cons sp show ?thesis by (cases ls) auto
  qed
qed

lemma join_lines_Cons: "ls \<noteq> [] \<Longrightarrow> join_lines (l # ls) = l @ newline # join_lines ls"
  by (cases ls) auto

lemma split_lines_no_newline: "l \<in> set (split_lines s) \<Longrightarrow> newline \<notin> set l"
proof (induction s arbitrary: l)
  case Nil
  then show ?case by simp
next
  case (Cons c cs)
  obtain k ks where sp: "split_lines cs = k # ks"
    using split_lines_nonempty[of cs] by (cases "split_lines cs") auto
  from Cons sp show ?case by (auto split: if_splits)
qed

lemma join_lines_infix: "l \<in> set ls \<Longrightarrow> \<exists>p q. join_lines ls = p @ l @ q"
proof (induction ls rule: join_lines.induct)
  case 1
  then show ?case by simp
next
  case (2 k)
  then have "join_lines [k] = [] @ l @ []" by simp
  then show ?case by blast
next
  case (3 k k' ks)
  show ?case
  proof (cases "l = k")
    case True
    then have "join_lines (k # k' # ks) = [] @ l @ (newline # join_lines (k' # ks))" by simp
    then show ?thesis by blast
  next
    case False
    with 3 obtain p q where "join_lines (k' # ks) = p @ l @ q" by auto
    then have "join_lines (k # k' # ks) = (k @ newline # p) @ l @ q" by simp
    then show ?thesis by blast
  qed
qed

lemma contains_line: "l \<in> set (split_lines s) \<Longrightarrow> contains m l \<Longrightarrow> contains m s"
proof -
  assume a: "l \<in> set (split_lines s)" and b: "contains m l"
  from join_lines_infix[OF a] obtain p q where "s = p @ l @ q" by (auto simp: join_split_lines)
  moreover from b obtain p' q' where "l = p' @ m @ q'" by (auto simp: contains_iff)
  ultimately have "s = (p @ p') @ m @ (q' @ q)" by simp
  then show ?thesis unfolding contains_iff by blast
qed

lemma split_lines_single: "newline \<notin> set l \<Longrightarrow> split_lines l = [l]"
  by (induction l) auto

lemma split_lines_append:
  "split_lines (a @ newline # b) = split_lines a @ split_lines b"
proof (induction a)
  case Nil
  then show ?case by simp
next
  case (Cons c cs)
  obtain k ks where sp: "split_lines cs = k # ks"
    using split_lines_nonempty[of cs] by (cases "split_lines cs") auto
  with Cons show ?case by simp
qed

lemma split_join_lines:
  "ls \<noteq> [] \<Longrightarrow> split_lines (join_lines ls) = concat (map split_lines ls)"
proof (induction ls rule: join_lines.induct)
  case 1
  then show ?case by simp
next
  case (2 l)
  then show ?case by simp
next
  case (3 l k ls)
  then show ?case by (simp add: split_lines_append)
qed

lemma join_lines_append:
  "xs \<noteq> [] \<Longrightarrow> ys \<noteq> [] \<Longrightarrow>
   join_lines (xs @ ys) = join_lines xs @ newline # join_lines ys"
proof (induction xs rule: join_lines.induct)
  case 1
  then show ?case by simp
next
  case (2 l)
  then show ?case by (simp add: join_lines_Cons)
next
  case (3 l k ls)
  then show ?case by simp
qed

lemma join_lines_concat:
  "\<forall>xs \<in> set xss. xs \<noteq> [] \<Longrightarrow>
   join_lines (concat xss) = join_lines (map join_lines xss)"
proof (induction xss)
  case Nil
  then show ?case by simp
next
  case (Cons xs xss)
  show ?case
  proof (cases "xss = []")
    case True
    then show ?thesis by simp
  next
    case False
    with Cons.prems have ne: "concat xss \<noteq> []" by (cases xss) auto
    from Cons have IH: "join_lines (concat xss) = join_lines (map join_lines xss)" by simp
    from Cons.prems have "xs \<noteq> []" by simp
    then have "join_lines (concat (xs # xss)) = join_lines xs @ newline # join_lines (concat xss)"
      using ne by (simp add: join_lines_append)
    also have "\<dots> = join_lines (map join_lines (xs # xss))"
      using False IH by (simp add: join_lines_Cons)
    finally show ?thesis .
  qed
qed

section \<open>The template merge\<close>

lemma compile_repl_literal: "backslash \<notin> set repl \<Longrightarrow> compile_repl lib repl = Inr (\<lambda>_. repl)"
  by (simp add: compile_repl_def)

lemma re_sub_line_literal:
  "backslash \<notin> set repl \<Longrightarrow>
   re_sub_line lib marker repl text =
     Inr (join_lines (map (\<lambda>l. if contains marker l then repl else l) (split_lines text)))"
  by (simp add: re_sub_line_def compile_repl_literal)

lemma map_lines_unmarked:
  assumes "\<not> contains marker text"
  shows "map (\<lambda>l. if contains marker l then f l else l) (split_lines text) = split_lines text"
proof -
  have "\<forall>l \<in> set (split_lines text). \<not> contains marker l"
    using assms contains_line by blast
  then show ?thesis by (simp add: map_idI)
qed

lemma re_sub_line_unmarked:
  assumes "\<not> contains marker text" and "compile_repl lib repl = Inr f"
  shows "re_sub_line lib marker repl text = Inr text"
  using assms by (simp add: re_sub_line_def map_lines_unmarked join_split_lines)

lemma two_pass:
  fixes f h :: "string \<Rightarrow> string" and P Q :: "string \<Rightarrow> bool"
  assumes cam: "\<forall>l \<in> set (split_lines cam). \<not> Q l"
  shows "join_lines (map (\<lambda>l. if Q l then objs else l)
           (split_lines (join_lines (map (\<lambda>l. if P l then cam else l) (split_lines t)))))
       = join_lines (map (\<lambda>l. if P l then cam else if Q l then objs else l) (split_lines t))"
proof -
  let ?f = "\<lambda>l. if P l then cam else l"
  let ?h = "\<lambda>l. if Q l then objs else l"
  let ?g = "\<lambda>l. if P l then cam else if Q l then objs else l"
  have ne: "map ?f (split_lines t) \<noteq> []" by (simp add: split_lines_nonempty)
  have camh: "map ?h (split_lines cam) = split_lines cam"
    using cam by (simp add: map_idI)
  have per_line: "map ?h (split_lines (?f l)) = (if P l then split_lines cam else [?h l])"
    if "l \<in> set (split_lines t)" for l
    using that camh split_lines_no_newline[of l t] by (simp add: split_lines_single)
  have "map ?h (split_lines (join_lines (map ?f (split_lines t))))
        = concat (map (\<lambda>l. map ?h (split_lines (?f l))) (split_lines t))"
    by (simp only: split_join_lines[OF ne] map_concat map_map o_def)
  also have "\<dots> = concat (map (\<lambda>l. if P l then split_lines cam else [?h l]) (split_lines t))"
    using per_line by (auto intro!: arg_cong[where f=concat] map_cong)
  finally have eq: "map ?h (split_lines (join_lines (map ?f (split_lines t))))
        = concat (map (\<lambda>l. if P l then split_lines cam else [?h l]) (split_lines t))" .
  have "join_lines (concat (map (\<lambda>l. if P l then split_lines cam else [?h l]) (split_lines t)))
        = join_lines (map join_lines (map (\<lambda>l. if P l then split_lines cam else [?h l]) (split_lines t)))"
    using split_lines_nonempty[of cam] by (intro join_lines_concat) auto
  also have "\<dots> = join_lines (map ?g (split_lines t))"
    by (simp add: o_def join_split_lines if_distrib[where f=join_lines] cong: if_cong)
  finally show ?thesis using eq by simp
qed

text \<open>
  The merge of a text without markers. When \<^verbatim>\<open>re.sub\<close> accepts the camera text, a
  newline and the joined object texts as a replacement (it always does when that text
  contains no backslash), the merge substitutes nothing and returns the text unchanged.
\<close>

lemma merge_no_markers:
  assumes "\<not> contains camera_marker template"
    and "\<not> contains content_marker template"
    and "compile_repl lib (cam @ newline # join_lines texts) = Inr expand"
  shows "merge_template lib cam texts template = Inr template"
  using assms by (simp add: merge_template_def Let_def re_sub_line_unmarked)

lemma merge_no_markers_sample:
  "\<not> contains camera_marker ''sphere { }''
   \<and> \<not> contains content_marker ''sphere { }''
   \<and> backslash \<notin> set (''camera { }'' @ newline # join_lines [''object { }'', ''light { }''])
   \<and> merge_template sample_parser ''camera { }'' [''object { }'', ''light { }''] ''sphere { }''
       = Inr ''sphere { }''"
proof -
  have h1: "\<not> contains camera_marker ''sphere { }''"
    by (simp add: camera_marker_def)
  have h2: "\<not> contains content_marker ''sphere { }''"
    by (simp add: content_marker_def)
  have h3: "backslash \<notin> set (''camera { }'' @ newline # join_lines [''object { }'', ''light { }''])"
    by (simp add: backslash_def newline_def)
  note h4 = compile_repl_literal [OF h3, of sample_parser]
  show ?thesis
    using h1 h2 h3 merge_no_markers [OF h1 h2 h4] by simp
qed

text \<open>
  Merging again what a merge without camera marker has produced: if the result has no
  marker left, the second merge returns it unchanged, whatever the texts are.
\<close>

lemma merge_twice:
  assumes "\<not> contains camera_marker template"
    and "merge_template lib cam texts template = Inr merged"
    and "\<not> contains camera_marker merged"
    and "\<not> contains content_marker merged"
  shows "merge_template lib cam texts merged = Inr merged"
proof -
  from assms(1,2) obtain expand
    where "compile_repl lib (cam @ newline # join_lines texts) = Inr expand"
    by (auto simp: merge_template_def Let_def re_sub_line_def split: sum.splits)
  with assms(3,4) show ?thesis by (rule merge_no_markers)
qed

text \<open>
  Claim C9 at a failing input. The replacement text goes to \<^verbatim>\<open>re.sub\<close> unescaped, where
  a literal substitution is meant. The text \<^verbatim>\<open>abc\<close> contains neither marker, and with
  the object text \<^verbatim>\<open>O\<close> its merge returns it unchanged; with an object text that is a
  single backslash the replacement ends in a backslash, and the merge raises instead of
  returning \<^verbatim>\<open>abc\<close>.
\<close>

theorem merge_raises_on_unescaped_backslash:
  "\<not> contains camera_marker ''abc'' \<and> \<not> contains content_marker ''abc''
   \<and> merge_template sample_parser ''C'' [''O''] ''abc'' = Inr ''abc''
   \<and> merge_template sample_parser ''C'' [[backslash]] ''abc'' = Inl ReError"
  by (simp add: merge_template_def re_sub_line_def compile_repl_def camera_marker_def
      content_marker_def newline_def backslash_def)

text \<open>
  Claim C2, as amended. Let the camera text and the joined object texts contain no
  backslash, and let the camera text not contain the content marker. If the template
  contains the camera marker, the merge replaces every line that contains the camera
  marker by the camera text and every other line that contains the content marker by the
  object texts joined by newlines. If the template does not contain the camera marker,
  the merge replaces every line that contains the content marker by the camera text, a
  newline and the joined object texts. All other lines stay as they are.
\<close>

theorem merge_by_lines:
  assumes "backslash \<notin> set cam"
    and "backslash \<notin> set (join_lines texts)"
    and "\<not> contains content_marker cam"
  shows "merge_template lib cam texts template =
     Inr (join_lines (map
       (\<lambda>l. if contains camera_marker template
            then (if contains camera_marker l then cam
                  else if contains content_marker l then join_lines texts
                  else l)
            else (if contains content_marker l then cam @ newline # join_lines texts
                  else l))
       (split_lines template)))"
proof (cases "contains camera_marker template")
  case True
  have "\<forall>l \<in> set (split_lines cam). \<not> contains content_marker l"
    using assms(3) contains_line by blast
  then show ?thesis
    using True assms(1,2)
    by (simp add: merge_template_def Let_def re_sub_line_literal two_pass)
next
  case False
  have "backslash \<noteq> newline" by (simp add: backslash_def newline_def)
  with assms(1,2) have "backslash \<notin> set (cam @ newline # join_lines texts)" by auto
  then show ?thesis
    using False by (simp add: merge_template_def Let_def re_sub_line_literal)
qed

text \<open>The property above at a template with one camera line and one content line.\<close>

theorem merge_by_lines_witness:
  "backslash \<notin> set ''camera''
   \<and> backslash \<notin> set (join_lines [''object'', ''light''])
   \<and> \<not> contains content_marker ''camera''
   \<and> merge_template sample_parser ''camera'' [''object'', ''light'']
        (''//RaytracingCamera'' @ newline # ''//RaytracingContent'' @ newline # ''end'')
       = Inr (''camera'' @ newline # ''object'' @ newline # ''light'' @ newline # ''end'')"
proof -
  have h1: "backslash \<notin> set ''camera''"
    by (simp add: backslash_def)
  have h2: "backslash \<notin> set (join_lines [''object'', ''light''])"
    by (simp add: backslash_def newline_def)
  have h3: "\<not> contains content_marker ''camera''"
    by (simp add: content_marker_def)
  show ?thesis
    using h1 h2 h3
      merge_by_lines [OF h1 h2 h3, of sample_parser
        "''//RaytracingCamera'' @ newline # ''//RaytracingContent'' @ newline # ''end''"]
    by (simp add: camera_marker_def content_marker_def newline_def)
qed

text \<open>
  Claim C2 as it is written fails in its last part: \<^verbatim>\<open>re.sub\<close> is called without a
  count, so the second line that contains the content marker is replaced as well, and no
  marker is left in the result.
\<close>

theorem merge_first_match_only_counterexample:
  "merge_template sample_parser ''C'' [''O'']
     (''RaytracingContent 1'' @ newline # ''RaytracingContent 2'')
   = Inr (''C'' @ newline # ''O'' @ newline # ''C'' @ newline # ''O'')
   \<and> \<not> contains content_marker (''C'' @ newline # ''O'' @ newline # ''C'' @ newline # ''O'')"
  by (simp add: merge_template_def re_sub_line_def compile_repl_def camera_marker_def
      content_marker_def newline_def backslash_def)

section \<open>The views of a project\<close>

lemma paths_from_shape: "path \<in> set (paths_from k objs) \<Longrightarrow> \<exists>i rest. path = i # rest \<and> k \<le> i"
proof (induction k objs arbitrary: path rule: paths_from.induct)
  case (1 k)
  then show ?case by simp
next
  case (2 k v objs)
  then show ?case by fastforce
next
  case (3 k label members objs)
  then show ?case by fastforce
qed

lemma all_group_objs_no_group: "filter is_group (all_group_objs objs) = []"
  by (induction objs rule: all_group_objs.induct) auto

lemma member_at_group:
  "q \<noteq> [] \<Longrightarrow> member_at (pre @ GroupObj label members # objs) (length pre # q) = member_at members q"
  by (cases q) auto

lemma member_at_paths:
  "map (member_at (pre @ objs)) (paths_from (length pre) objs) = map Some (all_group_objs objs)"
proof (induction objs arbitrary: pre rule: all_group_objs.induct)
  case 1
  then show ?case by simp
next
  case (2 v objs)
  have "map (member_at ((pre @ [ViewObj v]) @ objs)) (paths_from (length (pre @ [ViewObj v])) objs)
        = map Some (all_group_objs objs)"
    by (rule "2.IH")
  then show ?case by simp
next
  case (3 label members objs)
  have tail: "map (member_at ((pre @ [GroupObj label members]) @ objs))
                 (paths_from (length (pre @ [GroupObj label members])) objs)
        = map Some (all_group_objs objs)"
    by (rule "3.IH"(2))
  have inner: "map (member_at ([] @ members)) (paths_from (length ([] :: docobj list)) members)
        = map Some (all_group_objs members)"
    by (rule "3.IH"(1))
  have "map (member_at (pre @ GroupObj label members # objs)) (map ((#) (length pre)) (paths_from 0 members))
        = map (member_at members) (paths_from 0 members)"
  proof -
    have "member_at (pre @ GroupObj label members # objs) (length pre # q) = member_at members q"
      if "q \<in> set (paths_from 0 members)" for q
    proof -
      from paths_from_shape[OF that] have "q \<noteq> []" by auto
      then show ?thesis by (rule member_at_group)
    qed
    then show ?thesis by (simp add: o_def)
  qed
  with inner tail show ?case by simp
qed

lemma path_before_irrefl: "\<not> path_before p p"
  by (induction p) auto

lemma paths_from_sorted: "sorted_wrt path_before (paths_from k objs)"
proof (induction k objs rule: paths_from.induct)
  case (1 k)
  then show ?case by simp
next
  case (2 k v objs)
  have "path_before [k] q" if "q \<in> set (paths_from (Suc k) objs)" for q
    using paths_from_shape[OF that] by auto
  with 2 show ?case by simp
next
  case (3 k label members objs)
  have a: "sorted_wrt path_before (map ((#) k) (paths_from 0 members))"
    using "3.IH"(1) by (simp add: sorted_wrt_map)
  have b: "path_before p q"
    if "p \<in> set (map ((#) k) (paths_from 0 members))" "q \<in> set (paths_from (Suc k) objs)" for p q
    using that paths_from_shape[OF that(2)] by auto
  from a b "3.IH"(2) show ?case by (simp add: sorted_wrt_append)
qed

lemma member_at_shift:
  "length pre < i \<Longrightarrow> member_at (pre @ x # objs) (i # rest) = member_at ((pre @ [x]) @ objs) (i # rest)"
  by simp

lemma paths_from_complete:
  "member_at (pre @ objs) (i # rest) = Some (ViewObj v) \<Longrightarrow> length pre \<le> i
   \<Longrightarrow> i # rest \<in> set (paths_from (length pre) objs)"
proof (induction objs arbitrary: pre i rest v rule: all_group_objs.induct)
  case 1
  then show ?case by (cases rest) (auto split: if_splits)
next
  case (2 w objs)
  show ?case
  proof (cases "i = length pre")
    case True
    with "2.prems" have "rest = []" by (cases rest) (auto split: if_splits)
    with True show ?thesis by simp
  next
    case False
    with "2.prems" have "length (pre @ [ViewObj w]) \<le> i" by simp
    moreover from "2.prems" have "member_at ((pre @ [ViewObj w]) @ objs) (i # rest) = Some (ViewObj v)"
      by simp
    ultimately have "i # rest \<in> set (paths_from (length (pre @ [ViewObj w])) objs)"
      by (rule "2.IH"[rotated])
    then show ?thesis by simp
  qed
next
  case (3 label members objs)
  show ?case
  proof (cases "i = length pre")
    case True
    show ?thesis
    proof (cases rest)
      case Nil
      with True "3.prems" show ?thesis by (auto split: if_splits)
    next
      case (Cons j r)
      with True "3.prems" have "member_at ([] @ members) (j # r) = Some (ViewObj v)"
        by (auto split: if_splits)
      then have "j # r \<in> set (paths_from (length ([] :: docobj list)) members)"
        by (rule "3.IH"(1)) simp
      with True Cons show ?thesis by simp
    qed
  next
    case False
    with "3.prems" have "length (pre @ [GroupObj label members]) \<le> i" by simp
    moreover from "3.prems"
    have "member_at ((pre @ [GroupObj label members]) @ objs) (i # rest) = Some (ViewObj v)"
      by simp
    ultimately have "i # rest \<in> set (paths_from (length (pre @ [GroupObj label members])) objs)"
      by (rule "3.IH"(2)[rotated])
    then show ?thesis by simp
  qed
qed

lemma all_group_objs_views: "obj \<in> set (all_group_objs objs) \<Longrightarrow> \<exists>v. obj = ViewObj v"
  by (induction objs rule: all_group_objs.induct) auto

lemma paths_from_sound:
  assumes "path \<in> set (paths_from 0 objs)"
  shows "\<exists>v. member_at objs path = Some (ViewObj v)"
proof -
  from assms obtain n where n: "n < length (paths_from 0 objs)" "paths_from 0 objs ! n = path"
    by (auto simp: in_set_conv_nth)
  have eq: "map (member_at objs) (paths_from 0 objs) = map Some (all_group_objs objs)"
    using member_at_paths[of "[]" objs] by simp
  then have len: "length (paths_from 0 objs) = length (all_group_objs objs)"
    by (metis length_map)
  from eq n len have "member_at objs path = Some (all_group_objs objs ! n)"
    by (metis nth_map)
  moreover from n len have "all_group_objs objs ! n \<in> set (all_group_objs objs)" by simp
  ultimately show ?thesis using all_group_objs_views by metis
qed

lemma sorted_wrt_irrefl_distinct:
  "sorted_wrt P xs \<Longrightarrow> (\<And>x. \<not> P x x) \<Longrightarrow> distinct xs"
  by (induction xs) auto

text \<open>
  Claim C7. For every project, \<^verbatim>\<open>all_views\<close> lists the members of the group tree that
  are not groups, each exactly once and in document order: there is a list of paths,
  strictly increasing in document order (hence without repetition), that consists of
  exactly the paths at which the tree holds a view, and \<^verbatim>\<open>all_views\<close> is the list of the
  members at these paths. No entry of the result is a group. (A group tree given as a
  datatype is free of cycles.)
\<close>

theorem all_views_terminals:
  "\<exists>paths. sorted_wrt path_before paths \<and> distinct paths
     \<and> set paths = {path. \<exists>v. member_at (p_Group p) path = Some (ViewObj v)}
     \<and> map (member_at (p_Group p)) paths = map Some (all_views p)
     \<and> filter is_group (all_views p) = []"
proof -
  let ?ps = "paths_from 0 (p_Group p)"
  have s: "sorted_wrt path_before ?ps" by (rule paths_from_sorted)
  have d: "distinct ?ps" using s path_before_irrefl by (rule sorted_wrt_irrefl_distinct)
  have "set ?ps = {path. \<exists>v. member_at (p_Group p) path = Some (ViewObj v)}"
  proof (intro set_eqI iffI)
    fix path assume "path \<in> set ?ps"
    then show "path \<in> {path. \<exists>v. member_at (p_Group p) path = Some (ViewObj v)}"
      using paths_from_sound by simp
  next
    fix path assume "path \<in> {path. \<exists>v. member_at (p_Group p) path = Some (ViewObj v)}"
    then obtain v where m: "member_at (p_Group p) path = Some (ViewObj v)" by auto
    then obtain i rest where path: "path = i # rest" by (cases path) auto
    from m path have "member_at ([] @ p_Group p) (i # rest) = Some (ViewObj v)" by simp
    then have "i # rest \<in> set (paths_from (length ([] :: docobj list)) (p_Group p))"
      by (rule paths_from_complete) simp
    with path show "path \<in> set ?ps" by simp
  qed
  moreover have "map (member_at (p_Group p)) ?ps = map Some (all_views p)"
    using member_at_paths[of "[]" "p_Group p"] by (simp add: all_views_def)
  moreover have "filter is_group (all_views p) = []"
    by (simp add: all_views_def all_group_objs_no_group)
  ultimately show ?thesis using s d by blast
qed

section \<open>The dispatch boundary\<close>

lemma switcher_unknown: "kind \<notin> set known_kinds \<Longrightarrow> switcher kind = None"
  by (simp add: switcher_def known_kinds_def)

lemma get_rendering_string_not_caught:
  "get_rendering_string env rm v = Inl e \<Longrightarrow> \<not> caught e"
  by (auto simp: get_rendering_string_def caught_def split: sum.splits if_splits)

lemma get_rendering_string_caught:
  "caught e \<Longrightarrow> dispatch env rm v = Inl e \<Longrightarrow>
   get_rendering_string env rm v = Inr ([], [PrintWarning (view_label_or_default v) e])"
  by (simp add: get_rendering_string_def caught_def)

lemma get_rendering_string_uncaught:
  "\<not> caught e \<Longrightarrow> dispatch env rm v = Inl e \<Longrightarrow> get_rendering_string env rm v = Inl e"
  by (simp add: get_rendering_string_def caught_def)

lemma objstrings_visible_view:
  "visible (ViewObj v) \<Longrightarrow> get_rendering_string env rm v = Inr (s, ms) \<Longrightarrow>
   objstrings env rm True (ViewObj v # objs) =
     (case objstrings env rm True objs of
        (Inl e', ms') \<Rightarrow> (Inl e', ms @ ms')
      | (Inr ss, ms') \<Rightarrow> (Inr (s # ss), ms @ ms'))"
  by (simp add: visible_def get_rdr_string_def)

lemmas sample_defs =
  sample_env_def sample_module_def sample_kind_def sample_part_def blank_source_def view_on_def
  sample_view_object_def sample_mesh_def sample_box_def sample_arealight_def
  sample_project_def sample_world_def sample_run_def sample_parser_def

lemmas dispatch_defs =
  get_rendering_string_def dispatch_def switcher_def render_object_def render_camera_def
  render_pointlight_def render_arealight_def call_renderer_def resolve_color_alpha_def
  select_material_def get_mesh_def view_label_or_default_def white_def

text \<open>
  Claim C1, as amended. For every view given to \<^verbatim>\<open>get_rendering_string\<close>: when the
  dispatch raises \<^verbatim>\<open>AttributeError\<close>, \<^verbatim>\<open>TypeError\<close> or \<^verbatim>\<open>AssertionError\<close> (a missing
  attribute, a missing or misused function of the module, a failed check of the mesh), the
  exception is caught, a warning naming the view is printed and the result is the empty
  string, and the list of rendering strings goes on with the remaining views. An exception
  of any other class is not caught and leaves \<^verbatim>\<open>get_rendering_string\<close>; none of the three
  classes ever does.
\<close>

theorem dispatch_boundary:
  "(caught e \<and> dispatch env rm v = Inl e \<longrightarrow>
      get_rendering_string env rm v = Inr ([], [PrintWarning (view_label_or_default v) e])
      \<and> (visible (ViewObj v) \<longrightarrow>
           objstrings env rm True (ViewObj v # objs) =
             (case objstrings env rm True objs of
                (Inl e', ms) \<Rightarrow> (Inl e', PrintWarning (view_label_or_default v) e # ms)
              | (Inr ss, ms) \<Rightarrow> (Inr ([] # ss), PrintWarning (view_label_or_default v) e # ms))))
   \<and> (\<not> caught e \<and> dispatch env rm v = Inl e \<longrightarrow> get_rendering_string env rm v = Inl e)
   \<and> (\<forall>e'. get_rendering_string env rm v = Inl e' \<longrightarrow> \<not> caught e')"
proof (intro conjI impI allI)
  assume a: "caught e \<and> dispatch env rm v = Inl e"
  then show g: "get_rendering_string env rm v = Inr ([], [PrintWarning (view_label_or_default v) e])"
    by (simp add: get_rendering_string_caught)
  assume vis: "visible (ViewObj v)"
  show "objstrings env rm True (ViewObj v # objs) =
             (case objstrings env rm True objs of
                (Inl e', ms) \<Rightarrow> (Inl e', PrintWarning (view_label_or_default v) e # ms)
              | (Inr ss, ms) \<Rightarrow> (Inr ([] # ss), PrintWarning (view_label_or_default v) e # ms))"
    unfolding objstrings_visible_view [OF vis g] by (simp split: prod.splits sum.splits)
next
  assume "\<not> caught e \<and> dispatch env rm v = Inl e"
  then show "get_rendering_string env rm v = Inl e"
    by (simp add: get_rendering_string_uncaught)
next
  fix e' assume "get_rendering_string env rm v = Inl e'"
  then show "\<not> caught e'" by (rule get_rendering_string_not_caught)
qed

text \<open>
  The property above for an object without geometry (no mesh can be found for it) that is
  followed by a part: the first gives the empty string and a warning, the second its text.
\<close>

theorem dispatch_boundary_witness:
  "caught AssertionError
   \<and> dispatch sample_env sample_module (view_on (sample_kind ''Broken'' ''Object'') []) = Inl AssertionError
   \<and> visible (ViewObj (view_on (sample_kind ''Broken'' ''Object'') []))
   \<and> get_rendering_string sample_env sample_module (view_on (sample_kind ''Broken'' ''Object'') [])
       = Inr ([], [PrintWarning ''BrokenView'' AssertionError])
   \<and> objstrings sample_env sample_module True
        [ViewObj (view_on (sample_kind ''Broken'' ''Object'') []),
         ViewObj (view_on (sample_part ''Box'' True 0) [])]
       = (Inr [[], ''object''], [PrintWarning ''BrokenView'' AssertionError])"
proof -
  let ?v = "view_on (sample_kind ''Broken'' ''Object'') []"
  let ?box = "view_on (sample_part ''Box'' True 0) []"
  have c: "caught AssertionError" by (simp add: caught_def)
  have d: "dispatch sample_env sample_module ?v = Inl AssertionError"
    by (simp add: dispatch_defs sample_defs)
  have vis: "visible (ViewObj ?v)"
    by (simp add: visible_def Visibility_def sample_defs)
  have v2: "Visibility (ViewObj ?box) = Inr True"
    by (simp add: Visibility_def sample_defs)
  have g2: "get_rendering_string sample_env sample_module ?box = Inr (''object'', [])"
    by (simp add: dispatch_defs sample_defs)
  have rest: "objstrings sample_env sample_module True [ViewObj ?box] = (Inr [''object''], [])"
    by (simp add: v2 g2 get_rdr_string_def)
  have lab: "view_label_or_default ?v = ''BrokenView''"
    by (simp add: view_label_or_default_def sample_defs)
  from dispatch_boundary [of AssertionError sample_env sample_module ?v "[ViewObj ?box]"] c d vis
  have "get_rendering_string sample_env sample_module ?v
          = Inr ([], [PrintWarning (view_label_or_default ?v) AssertionError])"
    and "objstrings sample_env sample_module True [ViewObj ?v, ViewObj ?box] =
          (case objstrings sample_env sample_module True [ViewObj ?box] of
             (Inl e', ms) \<Rightarrow> (Inl e', PrintWarning (view_label_or_default ?v) AssertionError # ms)
           | (Inr ss, ms) \<Rightarrow> (Inr ([] # ss), PrintWarning (view_label_or_default ?v) AssertionError # ms))"
    by blast+
  then show ?thesis
    using c d vis by (simp only: rest lab prod.case sum.case simp_thms)
qed

text \<open>
  Claim C1 as it is written fails: for a view whose source has a kind that the table of
  the dispatcher does not list, the \<^verbatim>\<open>KeyError\<close> of the lookup is not caught, and
  \<^verbatim>\<open>get_rendering_string\<close> raises instead of returning the empty string.
\<close>

theorem dispatch_boundary_counterexample:
  "get_rendering_string sample_env sample_module
     (view_on (sample_kind ''Sun'' ''DirectionalLight'') []) = Inl KeyError"
  by (simp add: dispatch_defs sample_defs)

lemma objstrings_raises:
  "obj \<in> set objs \<Longrightarrow> visible obj \<Longrightarrow> get_rdr_string env rm delayed obj = Inl e
   \<Longrightarrow> \<exists>e' ms. objstrings env rm delayed objs = (Inl e', ms)"
proof (induction objs)
  case Nil
  then show ?case by simp
next
  case (Cons a objs)
  show ?case
  proof (cases "a = obj")
    case True
    with Cons.prems show ?thesis by (simp add: visible_def)
  next
    case False
    with Cons obtain e' ms where "objstrings env rm delayed objs = (Inl e', ms)" by auto
    then show ?thesis
      by (auto split: sum.splits bool.splits prod.splits)
  qed
qed

lemma render_raises:
  assumes "import_module env (p_Renderer p) = Some rm"
    and "objstrings env rm (p_DelayedBuild p) (all_views p) = (Inl e', ms)"
  shows "\<exists>e. fst (render env external p w) = Inl e"
  using assms
  by (auto simp: render_def RendererHandler_def Let_def split: option.splits sum.splits prod.splits)

text \<open>
  Claim C10. For every view whose source has a kind (\<^verbatim>\<open>Proxy.type\<close>) that is present but
  is none of \<^verbatim>\<open>Object\<close>, \<^verbatim>\<open>PointLight\<close>, \<^verbatim>\<open>Camera\<close> and \<^verbatim>\<open>AreaLight\<close>,
  \<^verbatim>\<open>get_rendering_string\<close> raises \<^verbatim>\<open>KeyError\<close>; and when such a view is visible in a
  project built with \<^verbatim>\<open>DelayedBuild\<close> whose renderer module is found, \<^verbatim>\<open>render\<close> ends
  with an exception instead of a result.
\<close>

theorem unknown_kind_raises_KeyError:
  assumes "v_Source v = Some src"
    and "s_Proxy_type src = Some kind"
    and "kind \<notin> set known_kinds"
  shows "get_rendering_string env rm v = Inl KeyError
         \<and> (import_module env (p_Renderer p) = Some rm \<and> p_DelayedBuild p
              \<and> ViewObj v \<in> set (all_views p) \<and> visible (ViewObj v)
            \<longrightarrow> (\<exists>e. fst (render env external p w) = Inl e))"
proof (intro conjI impI)
  from assms have d: "dispatch env rm v = Inl KeyError"
    by (simp add: dispatch_def switcher_unknown)
  then show g: "get_rendering_string env rm v = Inl KeyError"
    by (simp add: get_rendering_string_def)
  assume a: "import_module env (p_Renderer p) = Some rm \<and> p_DelayedBuild p
              \<and> ViewObj v \<in> set (all_views p) \<and> visible (ViewObj v)"
  then have "get_rdr_string env rm (p_DelayedBuild p) (ViewObj v) = Inl KeyError"
    using g by (simp add: get_rdr_string_def)
  with a obtain e' ms where "objstrings env rm (p_DelayedBuild p) (all_views p) = (Inl e', ms)"
    using objstrings_raises by blast
  with a show "\<exists>e. fst (render env external p w) = Inl e"
    using render_raises by blast
qed

text \<open>The property above for a view on a source of the kind \<^verbatim>\<open>SpotLight\<close>.\<close>

theorem unknown_kind_raises_KeyError_witness:
  "v_Source (view_on (sample_kind ''Lamp'' ''SpotLight'') []) = Some (sample_kind ''Lamp'' ''SpotLight'')
   \<and> s_Proxy_type (sample_kind ''Lamp'' ''SpotLight'') = Some ''SpotLight''
   \<and> ''SpotLight'' \<notin> set known_kinds
   \<and> get_rendering_string sample_env sample_module (view_on (sample_kind ''Lamp'' ''SpotLight'') [])
       = Inl KeyError
   \<and> (\<exists>e. fst (render sample_env True
                  (sample_project ''Sample'' [ViewObj (view_on (sample_kind ''Lamp'' ''SpotLight'') [])])
                  sample_world) = Inl e)"
proof -
  let ?src = "sample_kind ''Lamp'' ''SpotLight''"
  let ?v = "view_on ?src []"
  let ?p = "sample_project ''Sample'' [ViewObj ?v]"
  have h1: "v_Source ?v = Some ?src" by (simp add: view_on_def)
  have h2: "s_Proxy_type ?src = Some ''SpotLight''" by (simp add: sample_kind_def)
  have h3: "''SpotLight'' \<notin> set known_kinds" by (simp add: known_kinds_def)
  have i: "import_module sample_env (p_Renderer ?p) = Some sample_module"
    by (simp add: sample_env_def sample_project_def)
  have d: "p_DelayedBuild ?p" by (simp add: sample_project_def)
  have m: "ViewObj ?v \<in> set (all_views ?p)" by (simp add: all_views_def sample_project_def)
  have vis: "visible (ViewObj ?v)"
    by (simp add: visible_def Visibility_def sample_defs)
  show ?thesis
    using h1 h2 h3 i d m vis
      unknown_kind_raises_KeyError [OF h1 h2 h3, of sample_env sample_module ?p True sample_world]
    by blast
qed

lemma Povray_lookup:
  "module_functions (Povray bodies run) ''write_arealight'' = None"
  by (simp add: Povray_def Povray_functions_def)

text \<open>
  Claim C4 does not hold of \<^verbatim>\<open>renderers/Povray.py\<close>: the file defines four functions and
  \<^verbatim>\<open>write_arealight\<close> is not among them. The lookup of \<^verbatim>\<open>write_arealight\<close> in the
  module fails, the call of the dispatcher raises \<^verbatim>\<open>AttributeError\<close>, and an area light
  with all its properties is rendered as the empty string with a warning.
\<close>

theorem Povray_lacks_write_arealight:
  "map fst Povray_functions = [''write_camera'', ''write_object'', ''write_pointlight'', ''render'']
   \<and> module_functions (Povray bodies run) ''write_arealight'' = None
   \<and> call_renderer (Povray bodies run) ''write_arealight'' args = Inl AttributeError
   \<and> get_rendering_string env (Povray bodies run) (view_on sample_arealight [])
       = Inr ([], [PrintWarning ''PanelView'' AttributeError])"
proof -
  have a: "map fst Povray_functions = [''write_camera'', ''write_object'', ''write_pointlight'', ''render'']"
    by (simp add: Povray_functions_def)
  have c: "call_renderer (Povray bodies run) ''write_arealight'' args = Inl AttributeError" for args
    by (simp add: call_renderer_def Povray_lookup)
  have "dispatch env (Povray bodies run) (view_on sample_arealight []) = Inl AttributeError"
    by (simp add: dispatch_def switcher_def render_arealight_def c sample_arealight_def
        sample_kind_def blank_source_def view_on_def)
  then have "get_rendering_string env (Povray bodies run) (view_on sample_arealight [])
       = Inr ([], [PrintWarning ''PanelView'' AttributeError])"
    by (simp add: get_rendering_string_def view_label_or_default_def sample_arealight_def
        sample_kind_def blank_source_def view_on_def)
  with a c Povray_lookup show ?thesis by simp
qed

text \<open>
  Claim C6 at an object without material whose display transparency is 100: the level
  of the display color and transparency gives alpha \<open>1 - 100 / 100 = 0\<close>, but the test
  \<^verbatim>\<open>if not alpha\<close> takes zero for a missing value, and \<^verbatim>\<open>write_object\<close> receives the
  fallback \<open>1\<close> (opaque). At transparency 50 the same object gets alpha \<open>1 / 2\<close>.
\<close>

theorem fully_transparent_object_rendered_opaque:
  "resolve_color_alpha env (view_on (sample_part ''Glass'' True 50) []) (sample_part ''Glass'' True 50)
     = Inr (PTuple [PFloat (4 / 5), PFloat (4 / 5), PFloat (4 / 5)], 1 / 2)
   \<and> resolve_color_alpha env (view_on (sample_part ''Glass'' True 100) []) (sample_part ''Glass'' True 100)
     = Inr (PTuple [PFloat (4 / 5), PFloat (4 / 5), PFloat (4 / 5)], 1)
   \<and> render_object sample_env rm ''Glass'' (view_on (sample_part ''Glass'' True 100) [])
     = call_renderer rm ''write_object''
         [PStr ''Glass'', PMesh sample_mesh, PTuple [PFloat (4 / 5), PFloat (4 / 5), PFloat (4 / 5)],
          PFloat 1]"
proof -
  have a: "resolve_color_alpha env (view_on (sample_part ''Glass'' True 50) []) (sample_part ''Glass'' True 50)
     = Inr (PTuple [PFloat (4 / 5), PFloat (4 / 5), PFloat (4 / 5)], 1 / 2)"
    by (simp add: resolve_color_alpha_def select_material_def sample_part_def blank_source_def
        view_on_def sample_view_object_def)
  have b: "resolve_color_alpha env (view_on (sample_part ''Glass'' True 100) []) (sample_part ''Glass'' True 100)
     = Inr (PTuple [PFloat (4 / 5), PFloat (4 / 5), PFloat (4 / 5)], 1)" for env
    by (simp add: resolve_color_alpha_def select_material_def sample_part_def blank_source_def
        view_on_def sample_view_object_def)
  have src: "v_Source (view_on (sample_part ''Glass'' True 100) []) = Some (sample_part ''Glass'' True 100)"
    by (simp add: view_on_def)
  have m: "get_mesh sample_env (sample_part ''Glass'' True 100) = Inr (Some sample_mesh)"
    by (simp add: get_mesh_def sample_part_def blank_source_def sample_env_def)
  have c: "render_object sample_env rm ''Glass'' (view_on (sample_part ''Glass'' True 100) [])
     = call_renderer rm ''write_object''
         [PStr ''Glass'', PMesh sample_mesh, PTuple [PFloat (4 / 5), PFloat (4 / 5), PFloat (4 / 5)],
          PFloat 1]"
    by (simp add: render_object_def src b m sample_mesh_def)
  from a b c show ?thesis by simp
qed

section \<open>Delayed build\<close>














section \<open>Renderer not found\<close>

text \<open>
  Claim C3. For every project whose renderer name has no module, \<^verbatim>\<open>render\<close> returns
  the empty string, and the console holds two more errors, that of the handler and that
  of \<^verbatim>\<open>render\<close>, each naming the renderer; the project is unchanged (no
  \<^verbatim>\<open>PageResult\<close>), no file is read, created, written or removed, and the document is
  unchanged.
\<close>

theorem render_backend_not_found:
  assumes "import_module env (p_Renderer p) = None"
  shows "render env external p w =
           (Inr [], p,
            print [PrintError (''Import Error: Renderer '' @ [CHR 0x27] @ p_Renderer p @ [CHR 0x27]
                               @ '' not found'' @ [newline]),
                   PrintError (''Cannot render project: Renderer '' @ [CHR 0x27] @ p_Renderer p
                               @ [CHR 0x27] @ '' not found'' @ [newline])] w)
         \<and> console (snd (snd (render env external p w))) =
             console w @
               [PrintError (''Import Error: Renderer '' @ [CHR 0x27] @ p_Renderer p @ [CHR 0x27]
                            @ '' not found'' @ [newline]),
                PrintError (''Cannot render project: Renderer '' @ [CHR 0x27] @ p_Renderer p
                            @ [CHR 0x27] @ '' not found'' @ [newline])]
         \<and> files (snd (snd (render env external p w))) = files w
         \<and> io_trace (snd (snd (render env external p w))) = io_trace w
         \<and> doc_objects (snd (snd (render env external p w))) = doc_objects w"
  using assms by (simp add: render_def RendererHandler_def print_def)

text \<open>The property above for the renderer name \<^verbatim>\<open>DoesNotExist\<close>.\<close>

theorem render_backend_not_found_witness:
  "import_module sample_env (p_Renderer (sample_project ''DoesNotExist'' [])) = None
   \<and> fst (render sample_env True (sample_project ''DoesNotExist'' []) sample_world) = Inr []
   \<and> fst (snd (render sample_env True (sample_project ''DoesNotExist'' []) sample_world))
       = sample_project ''DoesNotExist'' []
   \<and> console (snd (snd (render sample_env True (sample_project ''DoesNotExist'' []) sample_world)))
       = [PrintError (''Import Error: Renderer '' @ [CHR 0x27] @ ''DoesNotExist'' @ [CHR 0x27]
                      @ '' not found'' @ [newline]),
          PrintError (''Cannot render project: Renderer '' @ [CHR 0x27] @ ''DoesNotExist''
                      @ [CHR 0x27] @ '' not found'' @ [newline])]
   \<and> files (snd (snd (render sample_env True (sample_project ''DoesNotExist'' []) sample_world)))
       = files sample_world
   \<and> io_trace (snd (snd (render sample_env True (sample_project ''DoesNotExist'' []) sample_world)))
       = []"
proof -
  let ?p = "sample_project ''DoesNotExist'' []"
  have h: "import_module sample_env (p_Renderer ?p) = None"
    by (simp add: sample_env_def sample_project_def)
  have t: "io_trace sample_world = []" and c: "console sample_world = []"
    by (simp_all add: sample_world_def)
  have n: "p_Renderer ?p = ''DoesNotExist''"
    by (simp add: sample_project_def)
  note r = render_backend_not_found [OF h, of True sample_world]
  from r have r1: "fst (render sample_env True ?p sample_world) = Inr []"
    and r2: "fst (snd (render sample_env True ?p sample_world)) = ?p"
    by simp_all
  from r have r3: "files (snd (snd (render sample_env True ?p sample_world))) = files sample_world"
    and r4: "io_trace (snd (snd (render sample_env True ?p sample_world))) = io_trace sample_world"
    and r5: "console (snd (snd (render sample_env True ?p sample_world))) =
             console sample_world @
               [PrintError (''Import Error: Renderer '' @ [CHR 0x27] @ p_Renderer ?p @ [CHR 0x27]
                            @ '' not found'' @ [newline]),
                PrintError (''Cannot render project: Renderer '' @ [CHR 0x27] @ p_Renderer ?p
                            @ [CHR 0x27] @ '' not found'' @ [newline])]"
    by blast+
  from h r1 r2 r3 r4 r5 t c n show ?thesis by simp
qed

section \<open>The ground plane\<close>

lemma sample_box_diagonal: "DiagonalLength sample_box = 3"
  by (simp add: DiagonalLength_def sample_box_def real_sqrt_unique)

lemma DiagonalLength_nonneg: "0 \<le> DiagonalLength b"
  by (simp add: DiagonalLength_def)

lemma groundplane_vertices_shape:
  "length (groundplane_vertices bbox) = 5
   \<and> hd (groundplane_vertices bbox) = last (groundplane_vertices bbox)
   \<and> (\<forall>(x, y, z) \<in> set (groundplane_vertices bbox). z = 0)"
  by (simp add: groundplane_vertices_def Let_def)

lemma groundplane_vertices_box:
  assumes "isValid (Some bbox)"
  shows "BoundBox (PolygonFace (groundplane_vertices bbox)) =
           Some \<lparr>XMin = XMin bbox - DiagonalLength bbox / 2,
                 XMax = XMax bbox + DiagonalLength bbox / 2,
                 YMin = YMin bbox - DiagonalLength bbox / 2,
                 YMax = YMax bbox + DiagonalLength bbox / 2,
                 ZMin = 0, ZMax = 0\<rparr>"
proof -
  from assms have v: "XMin bbox \<le> XMax bbox" "YMin bbox \<le> YMax bbox"
    by (simp_all add: isValid_def)
  have d: "0 \<le> DiagonalLength bbox / 2" using DiagonalLength_nonneg[of bbox] by simp
  show ?thesis
    using v d
    by (simp add: groundplane_vertices_def Let_def bbox_add_def point_box_def min_def max_def)
qed

lemma bbox_add_void: "bbox_add bb None = bb"
  by (simp add: bbox_add_def split: option.splits)

lemma bbox_step_shape_box: "bbox_step bb obj = bbox_add bb (shape_box obj)"
  by (cases obj) (simp_all add: bbox_step_def bbox_add_void split: option.splits)

lemma shape_boxes_Cons:
  "shape_boxes (obj # objs) =
     (case shape_box obj of None \<Rightarrow> shape_boxes objs | Some b \<Rightarrow> b # shape_boxes objs)"
  by (simp add: shape_boxes_def split: option.splits)

lemma Min_merge:
  fixes a b :: real
  shows "Min (set (min a b # xs)) = Min (set (a # b # xs))"
  by (cases "xs = []") (simp_all add: min.assoc)

lemma Max_merge:
  fixes a b :: real
  shows "Max (set (max a b # xs)) = Max (set (a # b # xs))"
  by (cases "xs = []") (simp_all add: max.assoc)

lemma union_box_merge:
  "union_box (\<lparr>XMin = min (XMin a) (XMin b), XMax = max (XMax a) (XMax b),
               YMin = min (YMin a) (YMin b), YMax = max (YMax a) (YMax b),
               ZMin = min (ZMin a) (ZMin b), ZMax = max (ZMax a) (ZMax b)\<rparr> # bs)
   = union_box (a # b # bs)"
  using Min_merge [of "XMin a" "XMin b" "map XMin bs"] Max_merge [of "XMax a" "XMax b" "map XMax bs"]
    Min_merge [of "YMin a" "YMin b" "map YMin bs"] Max_merge [of "YMax a" "YMax b" "map YMax bs"]
    Min_merge [of "ZMin a" "ZMin b" "map ZMin bs"] Max_merge [of "ZMax a" "ZMax b" "map ZMax bs"]
  by (simp add: union_box_def)

lemma foldl_bbox_step_union:
  "foldl bbox_step (Some a) objs = union_box (a # shape_boxes objs)"
proof (induction objs arbitrary: a)
  case Nil
  then show ?case by (simp add: shape_boxes_def union_box_def)
next
  case (Cons obj objs)
  show ?case
  proof (cases "shape_box obj")
    case None
    then have "bbox_step (Some a) obj = Some a"
      by (simp add: bbox_step_shape_box bbox_add_void)
    with None show ?thesis
      by (simp add: shape_boxes_Cons Cons.IH)
  next
    case (Some b)
    then have "bbox_step (Some a) obj =
        Some \<lparr>XMin = min (XMin a) (XMin b), XMax = max (XMax a) (XMax b),
              YMin = min (YMin a) (YMin b), YMax = max (YMax a) (YMax b),
              ZMin = min (ZMin a) (ZMin b), ZMax = max (ZMax a) (ZMax b)\<rparr>"
      by (simp add: bbox_step_shape_box bbox_add_def)
    with Some show ?thesis
      by (simp add: shape_boxes_Cons Cons.IH union_box_merge)
  qed
qed

lemma scene_bbox_union: "scene_bbox objs = union_box (shape_boxes objs)"
  unfolding scene_bbox_def
proof (induction objs)
  case Nil
  then show ?case by (simp add: shape_boxes_def union_box_def)
next
  case (Cons obj objs)
  show ?case
  proof (cases "shape_box obj")
    case None
    then have "bbox_step None obj = None"
      by (simp add: bbox_step_shape_box bbox_add_def)
    with None Cons.IH show ?thesis
      by (simp add: shape_boxes_Cons)
  next
    case (Some b)
    then have "bbox_step None obj = Some b"
      by (simp add: bbox_step_shape_box bbox_add_def)
    with Some show ?thesis
      by (simp add: shape_boxes_Cons foldl_bbox_step_union)
  qed
qed

lemma all_group_objs_flat: "filter is_group objs = [] \<Longrightarrow> all_group_objs objs = objs"
  by (induction objs rule: all_group_objs.induct) auto

lemma scene_bbox_all_views:
  "filter is_group (p_Group p) = [] \<Longrightarrow>
   scene_bbox (p_Group p) = union_box (shape_boxes (all_views p))"
  by (simp add: all_views_def all_group_objs_flat scene_bbox_union)

lemma write_groundplane_invalid:
  "\<not> isValid (scene_bbox (p_Group p)) \<Longrightarrow> write_groundplane env rm p w = (Inr [], w)"
  by (auto simp: write_groundplane_def split: option.splits)

lemma write_groundplane_valid:
  "scene_bbox (p_Group p) = Some bbox \<Longrightarrow> isValid (Some bbox) \<Longrightarrow> GuiUp env \<Longrightarrow>
   get_rendering_string env rm (dummy2 env bbox) = Inr (res, ms) \<Longrightarrow>
   fst (write_groundplane env rm p w) = Inr res"
  by (simp add: write_groundplane_def Let_def)

text \<open>
  Claim C8, as amended. When the ground-plane option is off, nothing is appended to the
  rendering strings. When the box of the scene is void or not valid, the text of the
  ground plane is empty. In a project without nested groups, the box of the scene is the
  union of the boxes of the shapes of the sources of all views of the project, visible or
  not. When the box of the scene is valid, the ground plane is a polyline of 5 points at
  height 0 whose last point is the first one, and whose own box is the box of the scene
  made larger on each side, in x and y, by half the diagonal length of the box of the
  scene; the temporary view has a source of no kind (an object) that carries the face on
  this polyline, and, with the GUI up, its text from the dispatcher is the text of the
  ground plane, appended to the rendering strings when the option is on.
\<close>

theorem groundplane_geometry:
  "(p_GroundPlane p \<noteq> Some True \<longrightarrow> add_groundplane env rm p strings w = (Inr strings, w))
   \<and> (\<not> isValid (scene_bbox (p_Group p)) \<longrightarrow> write_groundplane env rm p w = (Inr [], w))
   \<and> (filter is_group (p_Group p) = [] \<longrightarrow>
        scene_bbox (p_Group p) = union_box (shape_boxes (all_views p)))
   \<and> (scene_bbox (p_Group p) = Some bbox \<and> isValid (Some bbox) \<longrightarrow>
        length (groundplane_vertices bbox) = 5
        \<and> hd (groundplane_vertices bbox) = last (groundplane_vertices bbox)
        \<and> (\<forall>(x, y, z) \<in> set (groundplane_vertices bbox). z = 0)
        \<and> BoundBox (PolygonFace (groundplane_vertices bbox)) =
            Some \<lparr>XMin = XMin bbox - DiagonalLength bbox / 2,
                  XMax = XMax bbox + DiagonalLength bbox / 2,
                  YMin = YMin bbox - DiagonalLength bbox / 2,
                  YMax = YMax bbox + DiagonalLength bbox / 2,
                  ZMin = 0, ZMax = 0\<rparr>
        \<and> v_Source (dummy2 env bbox) = Some (dummy1 env bbox)
        \<and> s_Shape (dummy1 env bbox) = Some (PolygonFace (groundplane_vertices bbox))
        \<and> s_Proxy_type (dummy1 env bbox) = None
        \<and> (\<forall>res ms. GuiUp env \<and> get_rendering_string env rm (dummy2 env bbox) = Inr (res, ms)
              \<longrightarrow> fst (write_groundplane env rm p w) = Inr res
                  \<and> (p_GroundPlane p = Some True
                       \<longrightarrow> fst (add_groundplane env rm p strings w) = Inr (strings @ [res]))))"
proof (intro conjI impI allI)
  assume "p_GroundPlane p \<noteq> Some True"
  then show "add_groundplane env rm p strings w = (Inr strings, w)"
    by (simp add: add_groundplane_def)
next
  assume "\<not> isValid (scene_bbox (p_Group p))"
  then show "write_groundplane env rm p w = (Inr [], w)" by (rule write_groundplane_invalid)
next
  assume "filter is_group (p_Group p) = []"
  then show "scene_bbox (p_Group p) = union_box (shape_boxes (all_views p))"
    by (rule scene_bbox_all_views)
next
  show "length (groundplane_vertices bbox) = 5"
    "hd (groundplane_vertices bbox) = last (groundplane_vertices bbox)"
    "\<forall>(x, y, z) \<in> set (groundplane_vertices bbox). z = 0"
    using groundplane_vertices_shape by blast+
next
  assume "scene_bbox (p_Group p) = Some bbox \<and> isValid (Some bbox)"
  then show "BoundBox (PolygonFace (groundplane_vertices bbox)) =
            Some \<lparr>XMin = XMin bbox - DiagonalLength bbox / 2,
                  XMax = XMax bbox + DiagonalLength bbox / 2,
                  YMin = YMin bbox - DiagonalLength bbox / 2,
                  YMax = YMax bbox + DiagonalLength bbox / 2,
                  ZMin = 0, ZMax = 0\<rparr>"
    using groundplane_vertices_box by blast
next
  show "v_Source (dummy2 env bbox) = Some (dummy1 env bbox)" by (simp add: dummy2_def)
  show "s_Shape (dummy1 env bbox) = Some (PolygonFace (groundplane_vertices bbox))"
    by (simp add: dummy1_def)
  show "s_Proxy_type (dummy1 env bbox) = None" by (simp add: dummy1_def)
next
  fix res ms
  assume a: "scene_bbox (p_Group p) = Some bbox \<and> isValid (Some bbox)"
    and b: "GuiUp env \<and> get_rendering_string env rm (dummy2 env bbox) = Inr (res, ms)"
  then show g: "fst (write_groundplane env rm p w) = Inr res"
    using write_groundplane_valid by blast
  assume "p_GroundPlane p = Some True"
  with g show "fst (add_groundplane env rm p strings w) = Inr (strings @ [res])"
    by (cases "write_groundplane env rm p w") (auto simp: add_groundplane_def split: sum.splits)
qed

lemma shape_box_boxed: "shape_box (ViewObj (view_on (boxed_part name vis b) res)) = Some b"
  by (simp add: view_on_def boxed_part_def sample_part_def blank_source_def)

lemma groundplane_text_any:
  "get_rendering_string sample_env sample_module (dummy2 sample_env b) = Inr (''object'', [])"
  by (simp add: dispatch_defs dummy2_def dummy1_def sample_defs)

lemma shape_boxes_two_parts: "shape_boxes two_parts = [near_box, far_box]"
  unfolding two_parts_def
  by (simp add: shape_boxes_Cons shape_box_boxed del: shape_box.simps) (simp add: shape_boxes_def)

lemma union_of_two_diagonal: "DiagonalLength union_of_two = 3"
  by (simp add: DiagonalLength_def union_of_two_def real_sqrt_unique)

lemma union_of_two_vertices:
  "groundplane_vertices union_of_two =
     [(- 1 / 2, - 1 / 2, 0), (9 / 2, - 1 / 2, 0), (9 / 2, 7 / 2, 0), (- 1 / 2, 7 / 2, 0),
      (- 1 / 2, - 1 / 2, 0)]"
  by (simp add: groundplane_vertices_def Let_def union_of_two_diagonal) (simp add: union_of_two_def)

lemma union_box_two_parts: "union_box (shape_boxes two_parts) = Some union_of_two"
  by (simp add: shape_boxes_two_parts union_box_def near_box_def far_box_def union_of_two_def)

text \<open>
  The property above for a project that holds two parts away from the origin, the second
  one hidden: the box of the scene is the union \<open>[1, 3] \<times> [1, 2] \<times> [1, 3]\<close> of the two
  boxes, its diagonal is 3 and the margin \<open>3 / 2\<close>.
\<close>

theorem groundplane_geometry_witness:
  "p_GroundPlane (sample_project ''Sample'' two_parts) = Some True
   \<and> filter is_group (p_Group (sample_project ''Sample'' two_parts)) = []
   \<and> map Visibility two_parts = [Inr True, Inr False]
   \<and> shape_boxes (all_views (sample_project ''Sample'' two_parts)) = [near_box, far_box]
   \<and> scene_bbox (p_Group (sample_project ''Sample'' two_parts)) = Some union_of_two
   \<and> isValid (Some union_of_two)
   \<and> DiagonalLength union_of_two = 3
   \<and> groundplane_vertices union_of_two =
       [(- 1 / 2, - 1 / 2, 0), (9 / 2, - 1 / 2, 0), (9 / 2, 7 / 2, 0), (- 1 / 2, 7 / 2, 0),
        (- 1 / 2, - 1 / 2, 0)]
   \<and> BoundBox (PolygonFace (groundplane_vertices union_of_two)) =
       Some \<lparr>XMin = - 1 / 2, XMax = 9 / 2, YMin = - 1 / 2, YMax = 7 / 2, ZMin = 0, ZMax = 0\<rparr>
   \<and> fst (write_groundplane sample_env sample_module (sample_project ''Sample'' two_parts)
            sample_world)
       = Inr ''object''
   \<and> fst (add_groundplane sample_env sample_module (sample_project ''Sample'' two_parts)
            [''first''] sample_world)
       = Inr [''first'', ''object'']"
proof -
  let ?p = "sample_project ''Sample'' two_parts"
  have gp: "p_GroundPlane ?p = Some True" by (simp add: sample_project_def)
  have grp: "p_Group ?p = two_parts" by (simp add: sample_project_def)
  have ng: "filter is_group (p_Group ?p) = []" unfolding grp by (simp add: two_parts_def)
  have vis: "map Visibility two_parts = [Inr True, Inr False]"
    by (simp add: two_parts_def Visibility_def view_on_def boxed_part_def sample_part_def
        blank_source_def sample_view_object_def)
  have av: "all_views ?p = two_parts"
    unfolding all_views_def grp by (simp add: two_parts_def)
  have valid: "isValid (Some union_of_two)"
    by (simp add: isValid_def union_of_two_def)
  have gui: "GuiUp sample_env" by (simp add: sample_env_def)
  note g = groundplane_geometry [where p = ?p and env = sample_env and rm = sample_module
      and strings = "[''first'']" and w = sample_world and bbox = union_of_two]
  from g ng have "scene_bbox (p_Group ?p) = union_box (shape_boxes (all_views ?p))"
    by blast
  then have sb: "scene_bbox (p_Group ?p) = Some union_of_two"
    by (simp add: av union_box_two_parts)
  from g sb valid
  have bb: "BoundBox (PolygonFace (groundplane_vertices union_of_two)) =
            Some \<lparr>XMin = XMin union_of_two - DiagonalLength union_of_two / 2,
                  XMax = XMax union_of_two + DiagonalLength union_of_two / 2,
                  YMin = YMin union_of_two - DiagonalLength union_of_two / 2,
                  YMax = YMax union_of_two + DiagonalLength union_of_two / 2,
                  ZMin = 0, ZMax = 0\<rparr>"
    by blast
  from g sb valid gui groundplane_text_any [of union_of_two] gp
  have wg: "fst (write_groundplane sample_env sample_module ?p sample_world) = Inr ''object''"
    and ag: "fst (add_groundplane sample_env sample_module ?p [''first''] sample_world)
              = Inr ([''first''] @ [''object''])"
    by blast+
  have bb': "BoundBox (PolygonFace (groundplane_vertices union_of_two)) =
       Some \<lparr>XMin = - 1 / 2, XMax = 9 / 2, YMin = - 1 / 2, YMax = 7 / 2, ZMin = 0, ZMax = 0\<rparr>"
    unfolding bb union_of_two_diagonal by (simp add: union_of_two_def)
  have sbs: "shape_boxes (all_views ?p) = [near_box, far_box]"
    by (simp add: av shape_boxes_two_parts)
  from gp ng vis sbs sb valid union_of_two_diagonal union_of_two_vertices bb' wg ag
  show ?thesis by simp
qed

text \<open>
  Claim C8 as it is written fails: \<^verbatim>\<open>write_groundplane\<close> does not look at visibility. In
  a project whose only view is hidden, no view is rendered, so the visible sources have
  no geometry, and yet the box of the scene is the box of the hidden part, the ground
  plane is built around it and its text is appended.
\<close>

theorem groundplane_visible_sources_counterexample:
  "Visibility (ViewObj (view_on (boxed_part ''Far'' False far_box) [])) = Inr False
   \<and> objstrings sample_env sample_module True
        (all_views (sample_project ''Sample'' [ViewObj (view_on (boxed_part ''Far'' False far_box) [])]))
       = (Inr [], [])
   \<and> scene_bbox
        (p_Group (sample_project ''Sample'' [ViewObj (view_on (boxed_part ''Far'' False far_box) [])]))
       = Some far_box
   \<and> fst (write_groundplane sample_env sample_module
            (sample_project ''Sample'' [ViewObj (view_on (boxed_part ''Far'' False far_box) [])])
            sample_world)
       = Inr ''object''
   \<and> fst (add_groundplane sample_env sample_module
            (sample_project ''Sample'' [ViewObj (view_on (boxed_part ''Far'' False far_box) [])])
            [] sample_world)
       = Inr [''object'']"
proof -
  let ?h = "view_on (boxed_part ''Far'' False far_box) []"
  let ?p = "sample_project ''Sample'' [ViewObj ?h]"
  have v: "Visibility (ViewObj ?h) = Inr False"
    by (simp add: Visibility_def view_on_def boxed_part_def sample_part_def blank_source_def
        sample_view_object_def)
  have av: "all_views ?p = [ViewObj ?h]"
    by (simp add: all_views_def sample_project_def)
  have o: "objstrings sample_env sample_module True (all_views ?p) = (Inr [], [])"
    unfolding av by (simp add: v)
  have sb: "scene_bbox (p_Group ?p) = Some far_box"
    by (simp add: sample_project_def scene_bbox_def bbox_step_def bbox_add_def view_on_def
        boxed_part_def sample_part_def blank_source_def)
  have valid: "isValid (Some far_box)" by (simp add: isValid_def far_box_def)
  have gui: "GuiUp sample_env" by (simp add: sample_env_def)
  have gp: "p_GroundPlane ?p = Some True" by (simp add: sample_project_def)
  have wg: "fst (write_groundplane sample_env sample_module ?p sample_world) = Inr ''object''"
    using sb valid gui groundplane_text_any by (rule write_groundplane_valid)
  have ag: "fst (add_groundplane sample_env sample_module ?p [] sample_world) = Inr [''object'']"
    using wg gp
    by (cases "write_groundplane sample_env sample_module ?p sample_world")
       (auto simp: add_groundplane_def split: sum.splits)
  from v o sb wg ag show ?thesis by simp
qed

lemma sample_groundplane_text:
  "get_rendering_string sample_env sample_module (dummy2 sample_env sample_box) = Inr (''object'', [])"
  by (simp add: dispatch_defs dummy2_def dummy1_def sample_defs)

lemma sample_scene_bbox:
  "scene_bbox [ViewObj (view_on (sample_part name vis t) res)] = Some sample_box"
  by (simp add: scene_bbox_def bbox_step_def view_on_def sample_part_def blank_source_def
      bbox_add_def)

lemma sample_box_valid: "isValid (Some sample_box)"
  by (simp add: isValid_def sample_box_def)

section \<open>A complete render\<close>

text \<open>
  The whole of \<^verbatim>\<open>render\<close> on the sample project with one part, ground plane on, and a
  template with one camera line and one content line: the merged text has the camera,
  the part and the ground plane; it is written to a temporary file that is removed again,
  the renderer runs on its path, and the path of the image is returned.
\<close>

lemma sample_render:
  "fst (render sample_env True
          (sample_project ''Sample'' [ViewObj (view_on (sample_part ''Box'' True 0) [])]) sample_world)
     = Inr ''/tmp/Project.png''
   \<and> p_PageResult (fst (snd (render sample_env True
          (sample_project ''Sample'' [ViewObj (view_on (sample_part ''Box'' True 0) [])]) sample_world)))
     = ''/tmp/Project''
   \<and> io_trace (snd (snd (render sample_env True
          (sample_project ''Sample'' [ViewObj (view_on (sample_part ''Box'' True 0) [])]) sample_world)))
     = [ReadFile ''/templates/sample.pov'', MkStemp ''/tmp/Project'', WriteFile ''/tmp/Project'',
        RemoveFile ''/tmp/Project'', System ''renderer /tmp/Project'']
   \<and> console (snd (snd (render sample_env True
          (sample_project ''Sample'' [ViewObj (view_on (sample_part ''Box'' True 0) [])]) sample_world)))
     = []
   \<and> doc_objects (snd (snd (render sample_env True
          (sample_project ''Sample'' [ViewObj (view_on (sample_part ''Box'' True 0) [])]) sample_world)))
     = []"
proof -
  let ?box = "view_on (sample_part ''Box'' True 0) []"
  let ?p = "sample_project ''Sample'' [ViewObj ?box]"
  let ?w1 = "io (ReadFile ''/templates/sample.pov'') sample_world"
  have rh: "RendererHandler sample_env (p_Renderer ?p) sample_world = (Inr sample_module, sample_world)"
    by (simp add: RendererHandler_def sample_env_def sample_project_def)
  have tp: "p_Template ?p = ''/templates/sample.pov''" by (simp add: sample_project_def)
  have tf: "files sample_world ''/templates/sample.pov''
              = Some (''//RaytracingCamera'' @ newline # ''//RaytracingContent'')"
    by (simp add: sample_world_def)
  have cam: "get_rendering_string sample_env sample_module (defaultcamview sample_env ?p)
               = Inr (''camera'', [])"
    by (simp add: dispatch_defs defaultcamview_def sample_env_def sample_module_def)
  have v: "Visibility (ViewObj ?box) = Inr True"
    by (simp add: Visibility_def sample_defs)
  have g: "get_rendering_string sample_env sample_module ?box = Inr (''object'', [])"
    by (simp add: dispatch_defs sample_defs)
  have os: "objstrings sample_env sample_module (p_DelayedBuild ?p) (all_views ?p) = (Inr [''object''], [])"
    by (simp add: all_views_def sample_project_def v g get_rdr_string_def)
  have pw: "print [] w = w" for w by (simp add: print_def)
  have sb: "scene_bbox (p_Group ?p) = Some sample_box"
    by (simp add: sample_project_def sample_scene_bbox)
  have wg: "write_groundplane sample_env sample_module ?p ?w1 = (Inr ''object'', ?w1)"
    by (simp add: write_groundplane_def sb sample_box_valid sample_groundplane_text Let_def pw)
       (simp add: sample_env_def io_def sample_world_def)
  have ag: "add_groundplane sample_env sample_module ?p [''object''] ?w1
              = (Inr [''object'', ''object''], ?w1)"
    by (simp add: add_groundplane_def wg) (simp add: sample_project_def)
  have mt: "merge_template (sre_template sample_env) ''camera'' [''object'', ''object'']
              (''//RaytracingCamera'' @ newline # ''//RaytracingContent'')
            = Inr (''camera'' @ newline # ''object'' @ newline # ''object'')"
    by (simp add: merge_template_def re_sub_line_def compile_repl_def camera_marker_def
        content_marker_def newline_def backslash_def)
  have rr: "run_renderer sample_env sample_module True
              (''camera'' @ newline # ''object'' @ newline # ''object'') ?p ?w1
            = (Inr ''/tmp/Project.png'', ?p\<lparr>p_PageResult := ''/tmp/Project''\<rparr>,
               (io (System ''renderer /tmp/Project'')
                 ((io (RemoveFile ''/tmp/Project'')
                   ((io (WriteFile ''/tmp/Project'')
                     ((io (MkStemp ''/tmp/Project'') ?w1)
                        \<lparr>files := (files ?w1)(''/tmp/Project'' \<mapsto> [])\<rparr>))
                      \<lparr>files := (files ?w1)(''/tmp/Project'' \<mapsto>
                           ''camera'' @ newline # ''object'' @ newline # ''object'')\<rparr>))
                    \<lparr>files := (files ?w1)(''/tmp/Project'' := None)\<rparr>)))"
    by (simp add: run_renderer_def Let_def sample_env_def sample_module_def sample_run_def
        sample_project_def io_def)
  have r: "render sample_env True ?p sample_world
            = run_renderer sample_env sample_module True
                (''camera'' @ newline # ''object'' @ newline # ''object'') ?p ?w1"
    by (simp add: render_def rh tp tf cam os pw ag mt [simplified] Let_def)
  show ?thesis
    unfolding r rr by (simp add: io_def sample_world_def)
qed

end
